theory Spec2Isabelle
  imports Complex_Main "HOL-Library.Sublist"
begin

section \<open>Conventions\<close>

text \<open>
  The development embeds the second (quality-preset) version of \<^verbatim>\<open>src/App.tsx\<close>; the
  first version has the same pinch test, frame processing, pinch handler and frame
  callbacks, and neither the presets nor the delegate fallback.
  A JavaScript \<^verbatim>\<open>number\<close> is modelled as a \<^typ>\<open>real\<close>: rounding of IEEE doubles and the
  values NaN and Infinity are not modelled, so every comparison below is exact.
  Each call of \<^verbatim>\<open>Math.random()\<close> is an explicit argument (a draw \<open>u\<close> with \<open>0 \<le> u < 1\<close>).
  Reading an array out of range gives \<^verbatim>\<open>undefined\<close> in JavaScript; reading a property of
  \<^verbatim>\<open>undefined\<close> throws a \<^verbatim>\<open>TypeError\<close>, which is a value of the model.
\<close>

datatype SceneState = CHAOS | FORMED

datatype error = TypeError

text \<open>\<^verbatim>\<open>xs[i]\<close>: \<open>None\<close> stands for \<^verbatim>\<open>undefined\<close>.\<close>

definition elemAt :: "'a list \<Rightarrow> nat \<Rightarrow> 'a option" where
  "elemAt xs i = (if i < length xs then Some (xs ! i) else None)"

text \<open>A point \<^verbatim>\<open>{x, y, z}\<close>: a hand landmark, or a \<^verbatim>\<open>THREE.Vector3\<close>.\<close>

record point3 =
  px :: real
  py :: real
  pz :: real

section \<open>Gesture signal processor\<close>

subsection \<open>Three-finger pinch\<close>

definition getDistance :: "point3 \<Rightarrow> point3 \<Rightarrow> real" where
  "getDistance p1 p2 =
     sqrt ((px p1 - px p2) ^ 2 + (py p1 - py p2) ^ 2 + (pz p1 - pz p2) ^ 2)"

definition pinchThreshold :: real where
  "pinchThreshold = 0.08"

text \<open>
  \<^verbatim>\<open>detectThreeFingerPinch\<close>: landmarks 4, 8 and 12 are the thumb, index and middle finger
  tips. \<^verbatim>\<open>getDistance\<close> reads \<^verbatim>\<open>p.x\<close>, so a missing landmark throws.
\<close>

definition detectThreeFingerPinch :: "point3 list \<Rightarrow> error + bool" where
  "detectThreeFingerPinch landmarks =
     (case (elemAt landmarks 4, elemAt landmarks 8, elemAt landmarks 12) of
        (Some thumbTip, Some indexTip, Some middleTip) \<Rightarrow>
          (let thumbToIndex = getDistance thumbTip indexTip;
               thumbToMiddle = getDistance thumbTip middleTip;
               indexToMiddle = getDistance indexTip middleTip
           in Inr (thumbToIndex < pinchThreshold \<and> thumbToMiddle < pinchThreshold
                   \<and> indexToMiddle < pinchThreshold))
      | _ \<Rightarrow> Inl TypeError)"

subsection \<open>One processed frame\<close>

text \<open>
  The classifier's answer for one video frame: the landmark sets of the detected hands
  (\<^verbatim>\<open>results.landmarks\<close>) and, per hand, the ranked gesture categories
  (\<^verbatim>\<open>results.gestures\<close>).
\<close>

record category =
  categoryName :: string
  score :: real

record recognition =
  r_landmarks :: "point3 list list"
  r_gestures :: "category list list"

text \<open>The callbacks \<^verbatim>\<open>GestureController\<close> receives as props; a frame's effect is the list of
  calls it makes, in order.\<close>

datatype callback =
    OnPinch bool
  | OnGesture SceneState
  | OnMove real
  | OnStatus string

text \<open>Lines 1688--1697: the edge detector on \<^verbatim>\<open>isPinchingRef\<close>. It returns the new value
  of the ref and the calls made.\<close>

definition pinchEdge :: "bool \<Rightarrow> bool \<Rightarrow> bool \<Rightarrow> bool \<times> callback list" where
  "pinchEdge debug isPinching isPinchingRef =
     (if isPinching \<and> \<not> isPinchingRef then
        (True, [OnPinch True]
               @ (if debug then [OnStatus ''DETECTED: THREE FINGER PINCH''] else []))
      else if \<not> isPinching \<and> isPinchingRef then (False, [OnPinch False])
      else (isPinchingRef, []))"

text \<open>Lines 1700--1708: the discrete gestures. \<^verbatim>\<open>results.gestures[0][0]\<close> throws when the
  first hand's category list is empty.\<close>

definition gestureCommands :: "bool \<Rightarrow> bool \<Rightarrow> category list list \<Rightarrow> error + callback list" where
  "gestureCommands debug isPinching gestures =
     (case gestures of
        [] \<Rightarrow> Inr []
      | g # _ \<Rightarrow>
          (case g of
             [] \<Rightarrow> Inl TypeError
           | best # _ \<Rightarrow>
               (let name = categoryName best; sc = score best in
                if sc > 0.4 \<and> \<not> isPinching then
                  Inr ((if name = ''Open_Palm'' then [OnGesture CHAOS] else [])
                       @ (if name = ''Closed_Fist'' then [OnGesture FORMED] else [])
                       @ (if debug then [OnStatus (''DETECTED: '' @ name)] else []))
                else Inr [])))"

text \<open>Lines 1711--1712: rotation from the wrist (landmark 0).\<close>

definition rotationControl :: "point3 list \<Rightarrow> error + callback list" where
  "rotationControl landmarks =
     (case elemAt landmarks 0 of
        None \<Rightarrow> Inl TypeError
      | Some wrist \<Rightarrow>
          (let speed = (0.5 - px wrist) * 0.15 in
           Inr [OnMove (if \<bar>speed\<bar> > 0.01 then speed else 0)]))"

text \<open>
  Lines 1683--1716 of \<^verbatim>\<open>predictWebcam\<close>: what one processed frame does with the classifier's
  answer. The result is the new \<^verbatim>\<open>isPinchingRef\<close>, the calls made, and the exception that
  ended the frame, if any (the calls made before it have happened).
\<close>

definition processResults ::
  "bool \<Rightarrow> bool \<Rightarrow> recognition \<Rightarrow> bool \<times> callback list \<times> error option" where
  "processResults debug isPinchingRef results =
     (case r_landmarks results of
        [] \<Rightarrow>
          (isPinchingRef,
           [OnMove 0] @ (if debug then [OnStatus ''AI READY: NO HAND''] else []), None)
      | landmarks # _ \<Rightarrow>
          (case detectThreeFingerPinch landmarks of
             Inl e \<Rightarrow> (isPinchingRef, [], Some e)
           | Inr isPinching \<Rightarrow>
               (case pinchEdge debug isPinching isPinchingRef of
                  (ref', cs1) \<Rightarrow>
                    (case gestureCommands debug isPinching (r_gestures results) of
                       Inl e \<Rightarrow> (ref', cs1, Some e)
                     | Inr cs2 \<Rightarrow>
                         (case rotationControl landmarks of
                            Inl e \<Rightarrow> (ref', cs1 @ cs2, Some e)
                          | Inr cs3 \<Rightarrow> (ref', cs1 @ cs2 @ cs3, None))))))"

text \<open>
  The processed frames of a run of the loop, with the calls of each frame. An exception
  leaves \<^verbatim>\<open>predictWebcam\<close> before it schedules itself again, so the run ends there.
\<close>

fun runFrames :: "bool \<Rightarrow> bool \<Rightarrow> recognition list \<Rightarrow> bool \<times> callback list list" where
  "runFrames debug isPinchingRef [] = (isPinchingRef, [])"
| "runFrames debug isPinchingRef (results # rest) =
     (case processResults debug isPinchingRef results of
        (ref', cs, Some e) \<Rightarrow> (ref', [cs])
      | (ref', cs, None) \<Rightarrow>
          (case runFrames debug ref' rest of (ref'', css) \<Rightarrow> (ref'', cs # css)))"

text \<open>Projections of a frame's calls.\<close>

fun pinchCalls :: "callback list \<Rightarrow> bool list" where
  "pinchCalls [] = []"
| "pinchCalls (OnPinch b # cs) = b # pinchCalls cs"
| "pinchCalls (_ # cs) = pinchCalls cs"

fun gestureCalls :: "callback list \<Rightarrow> SceneState list" where
  "gestureCalls [] = []"
| "gestureCalls (OnGesture m # cs) = m # gestureCalls cs"
| "gestureCalls (_ # cs) = gestureCalls cs"

fun moveCalls :: "callback list \<Rightarrow> real list" where
  "moveCalls [] = []"
| "moveCalls (OnMove v # cs) = v # moveCalls cs"
| "moveCalls (_ # cs) = moveCalls cs"

text \<open>A frame that detected a hand and reads no landmark or category that is missing.\<close>

definition handFrame :: "recognition \<Rightarrow> bool" where
  "handFrame results =
     (case r_landmarks results of
        [] \<Rightarrow> False
      | landmarks # _ \<Rightarrow>
          12 < length landmarks
          \<and> (case r_gestures results of [] \<Rightarrow> True | g # _ \<Rightarrow> g \<noteq> []))"

text \<open>The pinch test of a frame's first hand (\<open>False\<close> where there is none).\<close>

definition pinchOf :: "recognition \<Rightarrow> bool" where
  "pinchOf results =
     (case r_landmarks results of
        [] \<Rightarrow> False
      | landmarks # _ \<Rightarrow>
          (case detectThreeFingerPinch landmarks of Inl _ \<Rightarrow> False | Inr b \<Rightarrow> b))"


section \<open>Application state and photo overlay\<close>

text \<open>\<^verbatim>\<open>`${n}`\<close> for a natural number: its decimal digits.\<close>

fun decimal :: "nat \<Rightarrow> string" where
  "decimal n =
     (if n < 10 then [''0123456789'' ! n]
      else decimal (n div 10) @ [''0123456789'' ! (n mod 10)])"

declare decimal.simps [simp del]

definition TOTAL_NUMBERED_PHOTOS :: nat where
  "TOTAL_NUMBERED_PHOTOS = 8"

text \<open>\<^verbatim>\<open>PHOTO_PATHS.body\<close>: \<^verbatim>\<open>top.jpg\<close>, then \<^verbatim>\<open>1.jpg\<close> to \<^verbatim>\<open>8.jpg\<close>.\<close>

definition bodyPhotoPaths :: "string list" where
  "bodyPhotoPaths =
     ''/photos/top.jpg''
     # map (\<lambda>i. ''/photos/'' @ decimal (i + 1) @ ''.jpg'') [0..<TOTAL_NUMBERED_PHOTOS]"

text \<open>
  The React state of \<^verbatim>\<open>GrandTreeApp\<close> that the gesture callbacks write, and the ref
  \<^verbatim>\<open>selectedPhotoRef\<close>. A state setter only records the new value; the ref is assigned in the
  render body (lines 1786--1787), so it holds the photo the last render put on screen.
\<close>

record app =
  sceneState :: SceneState
  rotationSpeed :: real
  aiStatus :: string
  debugMode :: bool
  selectedPhoto :: "string option"
  selectedPhotoRef :: "string option"

text \<open>A render of \<^verbatim>\<open>GrandTreeApp\<close>: \<^verbatim>\<open>selectedPhotoRef.current = selectedPhoto\<close>, and the overlay
  shows \<^verbatim>\<open>selectedPhoto\<close>.\<close>

definition render :: "app \<Rightarrow> app" where
  "render a = a\<lparr>selectedPhotoRef := selectedPhoto a\<rparr>"

text \<open>JavaScript truthiness of a \<^verbatim>\<open>string | null\<close>: \<^verbatim>\<open>null\<close> and the empty string are falsy.\<close>

definition truthy :: "string option \<Rightarrow> bool" where
  "truthy s = (case s of None \<Rightarrow> False | Some t \<Rightarrow> t \<noteq> [])"

text \<open>
  \<^verbatim>\<open>handlePinch\<close>. Its guards read \<^verbatim>\<open>selectedPhotoRef.current\<close>; it writes the state
  \<^verbatim>\<open>selectedPhoto\<close> and leaves the ref to the next render. \<open>u\<close> is the draw of
  \<^verbatim>\<open>Math.random()\<close>. An index outside the array reads \<^verbatim>\<open>undefined\<close>, which the overlay treats
  like \<^verbatim>\<open>null\<close>.
\<close>

definition handlePinch :: "real \<Rightarrow> bool \<Rightarrow> app \<Rightarrow> app" where
  "handlePinch u isPinching a =
     (if isPinching \<and> \<not> truthy (selectedPhotoRef a) then
        (let randomIndex = \<lfloor>u * real (length bodyPhotoPaths)\<rfloor> in
         a\<lparr>selectedPhoto :=
              (if 0 \<le> randomIndex then elemAt bodyPhotoPaths (nat randomIndex) else None)\<rparr>)
      else if \<not> isPinching \<and> truthy (selectedPhotoRef a) then a\<lparr>selectedPhoto := None\<rparr>
      else a)"

definition closePhotoOverlay :: "app \<Rightarrow> app" where
  "closePhotoOverlay a = a\<lparr>selectedPhoto := None\<rparr>"


text \<open>The props of \<^verbatim>\<open>GestureController\<close> (line 1822): \<^verbatim>\<open>onGesture = setSceneState\<close>,
  \<^verbatim>\<open>onMove = setRotationSpeed\<close>, \<^verbatim>\<open>onStatus = setAiStatus\<close>, \<^verbatim>\<open>onPinch = handlePinch\<close>.\<close>

fun dispatch :: "real \<Rightarrow> callback \<Rightarrow> app \<Rightarrow> app" where
  "dispatch u (OnPinch b) a = handlePinch u b a"
| "dispatch u (OnGesture m) a = a\<lparr>sceneState := m\<rparr>"
| "dispatch u (OnMove v) a = a\<lparr>rotationSpeed := v\<rparr>"
| "dispatch u (OnStatus s) a = a\<lparr>aiStatus := s\<rparr>"

text \<open>
  One processed frame against the application: the controller's ref and the application
  state, with the frame's calls delivered in order. \<^verbatim>\<open>debugModeRef\<close> follows \<^verbatim>\<open>debugMode\<close>.
  No render happens inside a frame.
\<close>

definition appFrame ::
  "real \<Rightarrow> recognition \<Rightarrow> bool \<times> app \<Rightarrow> (bool \<times> app) \<times> error option" where
  "appFrame u results s =
     (case s of
        (isPinchingRef, a) \<Rightarrow>
          (case processResults (debugMode a) isPinchingRef results of
             (ref', cs, e) \<Rightarrow> ((ref', foldl (\<lambda>a c. dispatch u c a) a cs), e)))"

text \<open>A run of processed frames, each with its draw; it ends at an exception.\<close>

fun appFrames :: "(real \<times> recognition) list \<Rightarrow> bool \<times> app \<Rightarrow> bool \<times> app" where
  "appFrames [] s = s"
| "appFrames ((u, results) # rest) s =
     (case appFrame u results s of
        (s', Some e) \<Rightarrow> s'
      | (s', None) \<Rightarrow> appFrames rest s')"

section \<open>Classifier set-up\<close>

datatype Delegate = GPU | CPU

datatype QualityPreset = HIGH | LOW

text \<open>\<^verbatim>\<open>PERF_PRESETS[quality].mediapipe.preferredDelegate\<close>.\<close>

fun preferredDelegate :: "QualityPreset \<Rightarrow> Delegate" where
  "preferredDelegate HIGH = GPU"
| "preferredDelegate LOW = CPU"

text \<open>A rejected promise's reason; \<^verbatim>\<open>message\<close> may be missing.\<close>

record jsError =
  message :: "string option"

text \<open>
  What the environment answers during \<^verbatim>\<open>setup\<close>: whether the WASM fileset resolves,
  whether \<^verbatim>\<open>GestureRecognizer.createFromOptions\<close> succeeds for a delegate, whether
  \<^verbatim>\<open>navigator.mediaDevices.getUserMedia\<close> exists and resolves, whether the video element is
  mounted, and whether the first synchronous call of \<^verbatim>\<open>predictWebcam\<close> throws. \<open>None\<close> is
  success.
\<close>

record setupEnv =
  visionFails :: "jsError option"
  createFails :: "Delegate \<Rightarrow> jsError option"
  mediaDevices :: bool
  getUserMediaFails :: "jsError option"
  videoMounted :: bool
  firstFrameFails :: "jsError option"

text \<open>What \<^verbatim>\<open>setup\<close> does, in order: a call of \<^verbatim>\<open>onStatus\<close>, a call of
  \<^verbatim>\<open>createWithDelegate\<close> (whether it succeeds or not), the call of \<^verbatim>\<open>getUserMedia\<close>, and the
  first call of \<^verbatim>\<open>predictWebcam\<close>.\<close>

datatype setupEvent =
    Status string
  | CreateRecognizer Delegate
  | GetUserMedia
  | PredictWebcam

text \<open>The status shown when the GPU delegate is unavailable (a Chinese sentence, here as its
  UTF-8 bytes): "GPU unavailable, switched to CPU mode".\<close>

definition gpuUnavailable :: string where
  "gpuUnavailable =
     ''GPU '' @ [CHR 0xE4, CHR 0xB8, CHR 0x8D, CHR 0xE5, CHR 0x8F, CHR 0xAF, CHR 0xE7, CHR 0x94, CHR 0xA8, CHR 0xEF, CHR 0xBC, CHR 0x8C, CHR 0xE5, CHR 0xB7, CHR 0xB2, CHR 0xE5, CHR 0x88, CHR 0x87, CHR 0xE6, CHR 0x8D, CHR 0xA2, CHR 0xE5, CHR 0x88, CHR 0xB0]
     @ '' CPU '' @ [CHR 0xE6, CHR 0xA8, CHR 0xA1, CHR 0xE5, CHR 0xBC, CHR 0x8F]"

text \<open>\<^verbatim>\<open>`ERROR: ${err.message || 'MODEL FAILED'}`\<close>.\<close>

definition errorStatus :: "jsError \<Rightarrow> string" where
  "errorStatus err =
     ''ERROR: '' @ (if truthy (message err) then the (message err) else ''MODEL FAILED'')"

text \<open>\<^verbatim>\<open>s.includes(sub)\<close>; the status line is drawn as an error when
  \<^verbatim>\<open>aiStatus.includes('ERROR')\<close>.\<close>

fun includesStr :: "string \<Rightarrow> string \<Rightarrow> bool" where
  "includesStr [] sub = (sub = [])"
| "includesStr (c # cs) sub = (prefix sub (c # cs) \<or> includesStr cs sub)"

definition isErrorStatus :: "string \<Rightarrow> bool" where
  "isErrorStatus s = includesStr s ''ERROR''"

text \<open>Lines 1608--1618: the inner \<^verbatim>\<open>try\<close>. The result is the events so far and either the
  error that leaves the block or the delegate of the recognizer created.\<close>

definition createWithFallback ::
  "Delegate \<Rightarrow> setupEnv \<Rightarrow> setupEvent list \<times> (jsError + Delegate)" where
  "createWithFallback preferred env =
     (case createFails env preferred of
        None \<Rightarrow> ([CreateRecognizer preferred], Inr preferred)
      | Some err \<Rightarrow>
          if preferred = GPU then
            (case createFails env CPU of
               None \<Rightarrow>
                 ([CreateRecognizer preferred, Status gpuUnavailable, CreateRecognizer CPU],
                  Inr CPU)
             | Some err2 \<Rightarrow>
                 ([CreateRecognizer preferred, Status gpuUnavailable, CreateRecognizer CPU],
                  Inl err2))
          else ([CreateRecognizer preferred], Inl err))"

text \<open>Lines 1620--1634: the camera, once a recognizer exists.\<close>

definition requestCamera :: "setupEnv \<Rightarrow> setupEvent list" where
  "requestCamera env =
     Status ''REQUESTING CAMERA...''
     # (if mediaDevices env then
          (case getUserMediaFails env of
             Some err \<Rightarrow> [GetUserMedia, Status (errorStatus err)]
           | None \<Rightarrow>
               if videoMounted env then
                 [GetUserMedia, Status ''AI READY: SHOW HAND'', PredictWebcam]
                 @ (case firstFrameFails env of
                      None \<Rightarrow> []
                    | Some err \<Rightarrow> [Status (errorStatus err)])
               else [GetUserMedia])
        else [Status ''ERROR: CAMERA PERMISSION DENIED''])"

text \<open>\<^verbatim>\<open>setup\<close> (lines 1592--1638): the events in order, and the recognizer's delegate when
  one was created.\<close>

definition setupController :: "Delegate \<Rightarrow> setupEnv \<Rightarrow> setupEvent list \<times> Delegate option" where
  "setupController preferred env =
     (case visionFails env of
        Some err \<Rightarrow> ([Status ''DOWNLOADING AI...'', Status (errorStatus err)], None)
      | None \<Rightarrow>
          (case createWithFallback preferred env of
             (evs, Inl err) \<Rightarrow>
               (Status ''DOWNLOADING AI...'' # evs @ [Status (errorStatus err)], None)
           | (evs, Inr delegate) \<Rightarrow>
               (Status ''DOWNLOADING AI...'' # evs @ requestCamera env, Some delegate)))"

text \<open>The statuses among the events.\<close>

fun statuses :: "setupEvent list \<Rightarrow> string list" where
  "statuses [] = []"
| "statuses (Status s # evs) = s # statuses evs"
| "statuses (_ # evs) = statuses evs"


section \<open>Scene object pool\<close>

text \<open>\<^verbatim>\<open>TREE = { height: 22, radius: 9 }\<close>.\<close>

definition TREE_height :: real where
  "TREE_height = 22"

definition TREE_radius :: real where
  "TREE_radius = 9"

text \<open>\<^verbatim>\<open>getTreePosition\<close>; its three draws are those of the height, the azimuth and the radial
  distance, in the order the source makes them.\<close>

definition getTreePosition :: "real \<Rightarrow> real \<Rightarrow> real \<Rightarrow> point3" where
  "getTreePosition uH uTheta uR =
     (let h = TREE_height; rBase = TREE_radius;
          y = uH * h - h / 2; normalizedY = (y + h / 2) / h;
          currentRadius = rBase * (1 - normalizedY); theta = uTheta * pi * 2;
          r = uR * currentRadius
      in \<lparr>px = r * cos theta, py = y, pz = r * sin theta\<rparr>)"

text \<open>
  The per-instance data the morph scheduler reads and writes. The cosmetic fields (scale,
  colours, rotation, pulse and wobble parameters) are left out: no position depends on
  them. An ornament also has its \<^verbatim>\<open>weight\<close> and its entry of \<^verbatim>\<open>morphProgressRef\<close>.
\<close>

record instanceData =
  chaosPos :: point3
  targetPos :: point3
  currentPos :: point3

record ornament = instanceData +
  weight :: real
  morphProgress :: real

text \<open>The draws of one instance: the three chaos coordinates, the height and the azimuth;
  for an ornament also the weight.\<close>

record draws =
  uX :: real
  uY :: real
  uZ :: real
  uH :: real
  uTheta :: real

record ornamentDraws = draws +
  uWeight :: real

text \<open>The body of \<^verbatim>\<open>PhotoOrnaments\<close>' \<^verbatim>\<open>data\<close> (lines 1049--1058, 1073--1078).\<close>

definition mkOrnament :: "ornamentDraws \<Rightarrow> ornament" where
  "mkOrnament d =
     (let chaos = \<lparr>px = (uX d - 0.5) * 70, py = (uY d - 0.5) * 70, pz = (uZ d - 0.5) * 70\<rparr>;
          h = TREE_height; y = uH d * h - h / 2;
          rBase = TREE_radius;
          currentRadius = rBase * (1 - (y + h / 2) / h) + 0.5;
          theta = uTheta d * pi * 2;
          target = \<lparr>px = currentRadius * cos theta, py = y, pz = currentRadius * sin theta\<rparr>
      in \<lparr>chaosPos = chaos, targetPos = target, currentPos = chaos,
          weight = 0.8 + uWeight d * 1.2, morphProgress = 0\<rparr>)"

text \<open>The body of \<^verbatim>\<open>ChristmasElements\<close>' \<^verbatim>\<open>data\<close> (lines 1245--1252, 1261).\<close>

definition mkElement :: "draws \<Rightarrow> instanceData" where
  "mkElement d =
     (let chaos = \<lparr>px = (uX d - 0.5) * 60, py = (uY d - 0.5) * 60, pz = (uZ d - 0.5) * 60\<rparr>;
          h = TREE_height; y = uH d * h - h / 2;
          rBase = TREE_radius;
          currentRadius = rBase * (1 - (y + h / 2) / h) * 0.95;
          theta = uTheta d * pi * 2;
          target = \<lparr>px = currentRadius * cos theta, py = y, pz = currentRadius * sin theta\<rparr>
      in \<lparr>chaosPos = chaos, targetPos = target, currentPos = chaos\<rparr>)"

text \<open>The body of \<^verbatim>\<open>FairyLights\<close>' \<^verbatim>\<open>data\<close> (lines 1296--1302).\<close>

definition mkLight :: "draws \<Rightarrow> instanceData" where
  "mkLight d =
     (let chaos = \<lparr>px = (uX d - 0.5) * 60, py = (uY d - 0.5) * 60, pz = (uZ d - 0.5) * 60\<rparr>;
          h = TREE_height; y = uH d * h - h / 2; rBase = TREE_radius;
          currentRadius = rBase * (1 - (y + h / 2) / h) + 0.3; theta = uTheta d * pi * 2;
          target = \<lparr>px = currentRadius * cos theta, py = y, pz = currentRadius * sin theta\<rparr>
      in \<lparr>chaosPos = chaos, targetPos = target, currentPos = chaos\<rparr>)"

text \<open>
  Modelled from the spec: the sampler \<^verbatim>\<open>random.inSphere\<close> of the library maath, which the
  repository calls and does not contain. The spec has a chaos position drawn uniformly inside
  a sphere of a configured radius: the sampler gives, for every index below \<open>count\<close>, the
  configured radius times a point of the unit ball about the origin. The points of the unit
  ball are the random input \<open>ball\<close>.
\<close>

definition inSphere :: "nat \<Rightarrow> real \<Rightarrow> (nat \<Rightarrow> point3) \<Rightarrow> point3 list" where
  "inSphere count radius ball =
     map (\<lambda>i. \<lparr>px = px (ball i) * radius, py = py (ball i) * radius, pz = pz (ball i) * radius\<rparr>)
       [0..<count]"

text \<open>
  \<^verbatim>\<open>Foliage\<close> (lines 977--986) keeps no current position per point: it hands the rest
  positions and the targets to the vertex shader as attributes, and the material carries the
  two uniforms \<^verbatim>\<open>uTime\<close> and \<^verbatim>\<open>uProgress\<close>, both 0 at first (line 942). The rest positions are
  the points of \<^verbatim>\<open>random.inSphere\<close> for the radius 25 (line 979), copied index by index.
\<close>

record foliage =
  positions :: "point3 list"
  targetPositions :: "point3 list"
  uTime :: real
  uProgress :: real

definition mkFoliage ::
  "nat \<Rightarrow> (nat \<Rightarrow> point3) \<Rightarrow> (nat \<Rightarrow> real \<times> real \<times> real) \<Rightarrow> foliage" where
  "mkFoliage count ball treeDraws =
     (let spherePoints = inSphere count 25 ball
      in \<lparr>positions = map (\<lambda>i. spherePoints ! i) [0..<count],
          targetPositions =
            map (\<lambda>i. case treeDraws i of (a, b, c) \<Rightarrow> getTreePosition a b c) [0..<count],
          uTime = 0, uProgress = 0\<rparr>)"

text \<open>
  The vertex shader of the foliage material (lines 945--950): the point drawn for a vertex
  with attributes \<^verbatim>\<open>position\<close> and \<^verbatim>\<open>aTargetPos\<close> under the uniforms \<^verbatim>\<open>uTime\<close> and
  \<^verbatim>\<open>uProgress\<close>. GLSL's \<^verbatim>\<open>mix(x, y, a)\<close> is \<^verbatim>\<open>x * (1 - a) + y * a\<close>, and \<^verbatim>\<open>pow(b, 3.0)\<close> is
  taken as the cube of \<open>b\<close>.
\<close>

definition cubicInOut :: "real \<Rightarrow> real" where
  "cubicInOut t = (if t < 0.5 then 4.0 * t * t * t else 0.5 * (2.0 * t - 2.0) ^ 3 + 1.0)"

definition mix :: "real \<Rightarrow> real \<Rightarrow> real \<Rightarrow> real" where
  "mix a b t = a * (1 - t) + b * t"

definition finalPos :: "real \<Rightarrow> real \<Rightarrow> point3 \<Rightarrow> point3 \<Rightarrow> point3" where
  "finalPos time progress position aTargetPos =
     (let noise = \<lparr>px = sin (time * 1.5 + px position) * 0.15,
                   py = cos (time + py position) * 0.15,
                   pz = sin (time * 1.5 + pz position) * 0.15\<rparr>;
          t = cubicInOut progress
      in \<lparr>px = mix (px position) (px aTargetPos + px noise) t,
          py = mix (py position) (py aTargetPos + py noise) t,
          pz = mix (pz position) (pz aTargetPos + pz noise) t\<rparr>)"

text \<open>The points the shader draws: one for each vertex, from the two attributes of the
  vertex and the uniforms of the material.\<close>

definition drawnPoints :: "foliage \<Rightarrow> point3 list" where
  "drawnPoints f = map2 (finalPos (uTime f) (uProgress f)) (positions f) (targetPositions f)"

record pools =
  foliagePool :: foliage
  ornaments :: "ornament list"
  elements :: "instanceData list"
  lights :: "instanceData list"

text \<open>\<^verbatim>\<open>PERF_PRESETS[quality].counts\<close>: foliage, ornaments, elements, lights.\<close>

fun presetCounts :: "QualityPreset \<Rightarrow> nat \<times> nat \<times> nat \<times> nat" where
  "presetCounts HIGH = (15000, 300, 200, 400)"
| "presetCounts LOW = (6000, 100, 80, 150)"

text \<open>The random source of one population: what the sampler and \<^verbatim>\<open>Math.random()\<close> give
  for the instance of each index.\<close>

record randomSource =
  ballPoints :: "nat \<Rightarrow> point3"
  treeDraws :: "nat \<Rightarrow> real \<times> real \<times> real"
  ornamentRandom :: "nat \<Rightarrow> ornamentDraws"
  elementRandom :: "nat \<Rightarrow> draws"
  lightRandom :: "nat \<Rightarrow> draws"

text \<open>Mounting the four categories: \<^verbatim>\<open>new Array(count).fill(0).map(...)\<close> of each.\<close>

definition mkPools :: "QualityPreset \<Rightarrow> randomSource \<Rightarrow> pools" where
  "mkPools quality rnd =
     (case presetCounts quality of
        (nFoliage, nOrnaments, nElements, nLights) \<Rightarrow>
          \<lparr>foliagePool = mkFoliage nFoliage (ballPoints rnd) (treeDraws rnd),
           ornaments = map (\<lambda>i. mkOrnament (ornamentRandom rnd i)) [0..<nOrnaments],
           elements = map (\<lambda>i. mkElement (elementRandom rnd i)) [0..<nElements],
           lights = map (\<lambda>i. mkLight (lightRandom rnd i)) [0..<nLights]\<rparr>)"

text \<open>A draw of \<^verbatim>\<open>Math.random()\<close> lies in \<open>[0, 1)\<close>.\<close>

definition unitDraw :: "real \<Rightarrow> bool" where
  "unitDraw u = (0 \<le> u \<and> u < 1)"

definition unitDraws :: "'a draws_scheme \<Rightarrow> bool" where
  "unitDraws d =
     (unitDraw (uX d) \<and> unitDraw (uY d) \<and> unitDraw (uZ d) \<and> unitDraw (uH d)
      \<and> unitDraw (uTheta d))"

section \<open>Morph scheduler\<close>

text \<open>three.js: \<^verbatim>\<open>MathUtils.lerp(x, y, t) = (1 - t) * x + t * y\<close>,
  \<^verbatim>\<open>MathUtils.damp(x, y, lambda, dt) = lerp(x, y, 1 - Math.exp(-lambda * dt))\<close>, and
  \<^verbatim>\<open>Vector3.lerp(v, alpha)\<close>, which adds \<^verbatim>\<open>(v.x - this.x) * alpha\<close> to each coordinate.\<close>

definition lerp :: "real \<Rightarrow> real \<Rightarrow> real \<Rightarrow> real" where
  "lerp a b t = (1 - t) * a + t * b"

definition damp :: "real \<Rightarrow> real \<Rightarrow> real \<Rightarrow> real \<Rightarrow> real" where
  "damp a b lambda dt = lerp a b (1 - exp (- lambda * dt))"

definition lerpV :: "point3 \<Rightarrow> point3 \<Rightarrow> real \<Rightarrow> point3" where
  "lerpV this v alpha =
     \<lparr>px = px this + (px v - px this) * alpha,
      py = py this + (py v - py this) * alpha,
      pz = pz this + (pz v - pz this) * alpha\<rparr>"

text \<open>The \<^verbatim>\<open>useFrame\<close> callbacks, per instance (lines 1096--1112, 1268--1273, 1310--1315), and
  that of the foliage material (lines 988--994), for mounted components (the refs are set).
  Rotation, scale, opacity and emissive intensity are left out: no position depends on
  them.\<close>

definition ornamentFrame :: "SceneState \<Rightarrow> real \<Rightarrow> ornament \<Rightarrow> ornament" where
  "ornamentFrame state delta objData =
     (let isFormed = (state = FORMED);
          target = (if isFormed then targetPos objData else chaosPos objData);
          targetMorph = (if isFormed then 1 else 0);
          morphSpeed = 2.0
      in objData
           \<lparr>morphProgress := damp (morphProgress objData) targetMorph morphSpeed delta,
            currentPos :=
              lerpV (currentPos objData) target
                (delta * (if isFormed then 0.8 * weight objData else 0.5))\<rparr>)"

definition elementFrame :: "SceneState \<Rightarrow> real \<Rightarrow> instanceData \<Rightarrow> instanceData" where
  "elementFrame state delta objData =
     (let isFormed = (state = FORMED);
          target = (if isFormed then targetPos objData else chaosPos objData)
      in objData\<lparr>currentPos := lerpV (currentPos objData) target (delta * 1.5)\<rparr>)"

definition lightFrame :: "SceneState \<Rightarrow> real \<Rightarrow> instanceData \<Rightarrow> instanceData" where
  "lightFrame state delta objData =
     (let isFormed = (state = FORMED);
          target = (if isFormed then targetPos objData else chaosPos objData)
      in objData\<lparr>currentPos := lerpV (currentPos objData) target (delta * 2.0)\<rparr>)"

definition foliageFrame :: "SceneState \<Rightarrow> real \<Rightarrow> real \<Rightarrow> foliage \<Rightarrow> foliage" where
  "foliageFrame state elapsedTime delta f =
     (let targetProgress = (if state = FORMED then 1 else 0)
      in f\<lparr>uTime := elapsedTime,
           uProgress := damp (uProgress f) targetProgress 1.5 delta\<rparr>)"

text \<open>One rendered frame over the pools: every category runs its callback with the same
  \<^verbatim>\<open>state\<close> prop and the same \<^verbatim>\<open>delta\<close>; the foliage also reads the clock.\<close>

definition sceneFrame :: "SceneState \<Rightarrow> real \<Rightarrow> real \<Rightarrow> pools \<Rightarrow> pools" where
  "sceneFrame state elapsedTime delta p =
     \<lparr>foliagePool = foliageFrame state elapsedTime delta (foliagePool p),
      ornaments = map (ornamentFrame state delta) (ornaments p),
      elements = map (elementFrame state delta) (elements p),
      lights = map (lightFrame state delta) (lights p)\<rparr>"

text \<open>The application state together with the mounted pools and the clock of the renderer.
  A mode command and the mode button write \<^verbatim>\<open>sceneState\<close>; a rendered frame passes it to the
  categories. The clock is that of three.js: a frame adds its \<^verbatim>\<open>delta\<close> to
  \<^verbatim>\<open>clock.elapsedTime\<close> before the callbacks run.\<close>

record world =
  w_app :: app
  w_pools :: pools
  w_elapsedTime :: real

definition setSceneState :: "SceneState \<Rightarrow> world \<Rightarrow> world" where
  "setSceneState m w = w\<lparr>w_app := (w_app w)\<lparr>sceneState := m\<rparr>\<rparr>"


definition renderFrame :: "real \<Rightarrow> world \<Rightarrow> world" where
  "renderFrame delta w =
     (let elapsedTime = w_elapsedTime w + delta
      in w\<lparr>w_pools := sceneFrame (sceneState (w_app w)) elapsedTime delta (w_pools w),
           w_elapsedTime := elapsedTime\<rparr>)"

definition renderFrames :: "real list \<Rightarrow> world \<Rightarrow> world" where
  "renderFrames deltas w = foldl (\<lambda>w delta. renderFrame delta w) w deltas"

text \<open>A run in which every rendered frame is preceded by a mode command: the steps are the
  commanded mode and the frame's \<^verbatim>\<open>delta\<close>.\<close>

definition runModes :: "(SceneState \<times> real) list \<Rightarrow> world \<Rightarrow> world" where
  "runModes steps w = foldl (\<lambda>w (m, delta). renderFrame delta (setSceneState m w)) w steps"


section \<open>Auxiliary notions\<close>

text \<open>The squared distance, to compare distances without the square root.\<close>

definition sqDistance :: "point3 \<Rightarrow> point3 \<Rightarrow> real" where
  "sqDistance p1 p2 = (px p1 - px p2) ^ 2 + (py p1 - py p2) ^ 2 + (pz p1 - pz p2) ^ 2"

text \<open>Concrete inputs: a point, and a hand of 21 landmarks given by its wrist and the
  three finger tips (the other landmarks sit at the wrist).\<close>

definition pt :: "real \<Rightarrow> real \<Rightarrow> real \<Rightarrow> point3" where
  "pt a b c = \<lparr>px = a, py = b, pz = c\<rparr>"

definition hand :: "point3 \<Rightarrow> point3 \<Rightarrow> point3 \<Rightarrow> point3 \<Rightarrow> point3 list" where
  "hand wrist thumb index middle = (replicate 21 wrist)[4 := thumb, 8 := index, 12 := middle]"

text \<open>A pinched hand and an open hand with the wrist at the given abscissa, and the frames
  that show them with the given top gesture.\<close>

definition pinchedHand :: "real \<Rightarrow> point3 list" where
  "pinchedHand wx = hand (pt wx 0.9 0) (pt 0.5 0.5 0) (pt 0.55 0.5 0) (pt 0.52 0.54 0)"

definition openHand :: "real \<Rightarrow> point3 list" where
  "openHand wx = hand (pt wx 0.9 0) (pt 0.3 0.6 0) (pt 0.45 0.2 0) (pt 0.55 0.15 0)"

definition frameOf :: "point3 list \<Rightarrow> string \<Rightarrow> real \<Rightarrow> recognition" where
  "frameOf landmarks name sc =
     \<lparr>r_landmarks = [landmarks], r_gestures = [[\<lparr>categoryName = name, score = sc\<rparr>]]\<rparr>"

definition noHand :: recognition where
  "noHand = \<lparr>r_landmarks = [], r_gestures = []\<rparr>"

text \<open>The calls of \<open>gestureCommands\<close> where it does not throw.\<close>

definition commandsOf :: "bool \<Rightarrow> bool \<Rightarrow> category list list \<Rightarrow> callback list" where
  "commandsOf debug isPinching gestures =
     (case gestures of
        [] \<Rightarrow> []
      | g # _ \<Rightarrow>
          if score (hd g) > 0.4 \<and> \<not> isPinching then
            (if categoryName (hd g) = ''Open_Palm'' then [OnGesture CHAOS] else [])
            @ (if categoryName (hd g) = ''Closed_Fist'' then [OnGesture FORMED] else [])
            @ (if debug then [OnStatus (''DETECTED: '' @ categoryName (hd g))] else [])
          else [])"





text \<open>The distance of an instance from its formed position.\<close>

definition distanceToTarget :: "'a instanceData_scheme \<Rightarrow> real" where
  "distanceToTarget objData = getDistance (currentPos objData) (targetPos objData)"

text \<open>The cone of the tree: its radius at height \<open>y\<close>, the distance of a point from the axis,
  and the half-open cube of half-side \<open>h\<close> that the chaos positions are drawn from.\<close>

definition coneRadius :: "real \<Rightarrow> real" where
  "coneRadius y = TREE_radius * (1 - (y + TREE_height / 2) / TREE_height)"

definition radial :: "point3 \<Rightarrow> real" where
  "radial p = sqrt ((px p) ^ 2 + (pz p) ^ 2)"

definition inCube :: "real \<Rightarrow> point3 \<Rightarrow> bool" where
  "inCube h p = (- h \<le> px p \<and> px p < h \<and> - h \<le> py p \<and> py p < h \<and> - h \<le> pz p \<and> pz p < h)"

text \<open>The origin, the unit ball about it, and the ball of radius \<open>r\<close> about it.\<close>

definition origin :: point3 where
  "origin = \<lparr>px = 0, py = 0, pz = 0\<rparr>"

definition inUnitBall :: "point3 \<Rightarrow> bool" where
  "inUnitBall p = ((px p) ^ 2 + (py p) ^ 2 + (pz p) ^ 2 \<le> 1)"

definition inBall :: "real \<Rightarrow> point3 \<Rightarrow> bool" where
  "inBall r p = (getDistance p origin \<le> r)"

text \<open>A random source all of whose draws lie in \<open>[0, 1)\<close> and all of whose sampler points lie
  in the unit ball.\<close>

definition unitSource :: "randomSource \<Rightarrow> bool" where
  "unitSource rnd =
     (\<forall>i. unitDraws (ornamentRandom rnd i) \<and> unitDraws (elementRandom rnd i)
          \<and> unitDraws (lightRandom rnd i)
          \<and> (case treeDraws rnd i of (a, b, c) \<Rightarrow> unitDraw a \<and> unitDraw b \<and> unitDraw c)
          \<and> inUnitBall (ballPoints rnd i))"

text \<open>Two points each coordinate of which differs by less than \<open>r\<close>.\<close>

definition coordinatesWithin :: "real \<Rightarrow> point3 \<Rightarrow> point3 \<Rightarrow> bool" where
  "coordinatesWithin r p q =
     (\<bar>px p - px q\<bar> < r \<and> \<bar>py p - py q\<bar> < r \<and> \<bar>pz p - pz q\<bar> < r)"

text \<open>Concrete inputs: the initial application state, an environment in which every step of
  the set-up succeeds, and a world mounted on the low preset from constant draws; its sampler
  gives, for the first foliage point, the point of the unit ball that the radius 25 takes to
  \<open>(pi / 2, 0, pi / 2)\<close>, and a point of the boundary for the others.\<close>

definition blankApp :: app where
  "blankApp = \<lparr>sceneState = CHAOS, rotationSpeed = 0, aiStatus = ''INITIALIZING...'',
               debugMode = False, selectedPhoto = None, selectedPhotoRef = None\<rparr>"

definition env0 :: setupEnv where
  "env0 = \<lparr>visionFails = None, createFails = (\<lambda>d. None), mediaDevices = True,
            getUserMediaFails = None, videoMounted = True, firstFrameFails = None\<rparr>"

definition demoDraws :: draws where
  "demoDraws = \<lparr>uX = 0.5, uY = 0.5, uZ = 0.5, uH = 0.5, uTheta = 0\<rparr>"

definition demoRandom :: randomSource where
  "demoRandom =
     \<lparr>ballPoints = (\<lambda>i. if i = 0 then pt (pi / 50) 0 (pi / 50) else pt 0.6 0 0.8),
      treeDraws = (\<lambda>i. (0.5, 0, 0.5)),
      ornamentRandom = (\<lambda>i. draws.extend demoDraws (ornamentDraws.fields 0.5)),
      elementRandom = (\<lambda>i. demoDraws), lightRandom = (\<lambda>i. demoDraws)\<rparr>"

definition demoWorld :: world where
  "demoWorld = \<lparr>w_app = blankApp, w_pools = mkPools LOW demoRandom, w_elapsedTime = 0\<rparr>"

text \<open>The demonstration world in the mode FORMED with the progress of the foliage at 1, the
  value the damping of a FORMED frame tends to and leaves in place.\<close>

definition settledWorld :: world where
  "settledWorld =
     demoWorld
       \<lparr>w_app := (w_app demoWorld)\<lparr>sceneState := FORMED\<rparr>,
        w_pools := (w_pools demoWorld)
          \<lparr>foliagePool := (foliagePool (w_pools demoWorld))\<lparr>uProgress := 1\<rparr>\<rparr>\<rparr>"

section \<open>Properties of the gesture signal processor\<close>

subsection \<open>Evaluating the pinch test\<close>

lemma sqrt_less_iff_sq: "0 < y \<Longrightarrow> sqrt x < y \<longleftrightarrow> x < y ^ 2"
  by (metis real_sqrt_less_iff real_sqrt_abs abs_of_pos)

lemma getDistance_below: "getDistance p q < 0.08 \<longleftrightarrow> sqDistance p q < 0.0064"
proof -
  have "getDistance p q < 0.08 \<longleftrightarrow> sqDistance p q < (0.08::real) ^ 2"
    unfolding getDistance_def sqDistance_def by (rule sqrt_less_iff_sq) simp
  then show ?thesis by (simp add: power2_eq_square)
qed

lemma detect_ok:
  assumes "12 < length landmarks"
  shows "detectThreeFingerPinch landmarks =
     Inr (getDistance (landmarks ! 4) (landmarks ! 8) < 0.08
          \<and> getDistance (landmarks ! 4) (landmarks ! 12) < 0.08
          \<and> getDistance (landmarks ! 8) (landmarks ! 12) < 0.08)"
  using assms by (simp add: detectThreeFingerPinch_def elemAt_def pinchThreshold_def Let_def)

lemma detect_squared:
  assumes "12 < length landmarks"
  shows "detectThreeFingerPinch landmarks =
     Inr (sqDistance (landmarks ! 4) (landmarks ! 8) < 0.0064
          \<and> sqDistance (landmarks ! 4) (landmarks ! 12) < 0.0064
          \<and> sqDistance (landmarks ! 8) (landmarks ! 12) < 0.0064)"
  unfolding detect_ok[OF assms] getDistance_below ..

lemma hand_simps:
  "length (hand w a b c) = 21" "hand w a b c ! 4 = a" "hand w a b c ! 8 = b"
  "hand w a b c ! 12 = c" "elemAt (hand w a b c) 0 = Some w" "hd (hand w a b c) = w"
  by (simp_all add: hand_def elemAt_def hd_conv_nth)

lemma detect_pinchedHand: "detectThreeFingerPinch (pinchedHand wx) = Inr True"
  by (simp add: pinchedHand_def detect_squared hand_simps sqDistance_def pt_def power2_eq_square)

lemma detect_openHand: "detectThreeFingerPinch (openHand wx) = Inr False"
  by (simp add: openHand_def detect_squared hand_simps sqDistance_def pt_def power2_eq_square)

subsection \<open>A processed frame, in one equation\<close>

lemma gestureCommands_ok:
  assumes "case gestures of [] \<Rightarrow> True | g # _ \<Rightarrow> g \<noteq> []"
  shows "gestureCommands debug b gestures = Inr (commandsOf debug b gestures)"
  using assms
  by (auto simp: gestureCommands_def commandsOf_def Let_def split: list.splits)

lemma processResults_hand:
  assumes "handFrame results"
  shows "processResults debug r results =
     (pinchOf results,
      snd (pinchEdge debug (pinchOf results) r)
      @ commandsOf debug (pinchOf results) (r_gestures results)
      @ [OnMove (let speed = (0.5 - px (hd (hd (r_landmarks results)))) * 0.15
                 in if \<bar>speed\<bar> > 0.01 then speed else 0)],
      None)"
proof -
  from assms obtain landmarks hands where l: "r_landmarks results = landmarks # hands"
    and n: "12 < length landmarks"
    and g: "case r_gestures results of [] \<Rightarrow> True | g # _ \<Rightarrow> g \<noteq> []"
    unfolding handFrame_def by (auto split: list.splits)
  have d: "detectThreeFingerPinch landmarks = Inr (pinchOf results)"
    using n by (simp add: pinchOf_def l detect_ok)
  have e: "pinchEdge debug b r = (b, snd (pinchEdge debug b r))" for b
    by (simp add: pinchEdge_def)
  have rot: "rotationControl landmarks =
      Inr [OnMove (let speed = (0.5 - px (hd landmarks)) * 0.15 in if \<bar>speed\<bar> > 0.01 then speed else 0)]"
    using n by (cases landmarks) (simp_all add: rotationControl_def elemAt_def Let_def)
  show ?thesis
    unfolding processResults_def l
    by (subst e) (simp add: d rot gestureCommands_ok[OF g] l)
qed

lemma processResults_noHand:
  assumes "r_landmarks results = []"
  shows "processResults debug r results =
     (r, OnMove 0 # (if debug then [OnStatus ''AI READY: NO HAND''] else []), None)"
  using assms by (simp add: processResults_def)

lemma pinchCalls_append [simp]: "pinchCalls (xs @ ys) = pinchCalls xs @ pinchCalls ys"
  by (induction xs rule: pinchCalls.induct) simp_all

lemma gestureCalls_append [simp]: "gestureCalls (xs @ ys) = gestureCalls xs @ gestureCalls ys"
  by (induction xs rule: gestureCalls.induct) simp_all

lemma moveCalls_append [simp]: "moveCalls (xs @ ys) = moveCalls xs @ moveCalls ys"
  by (induction xs rule: moveCalls.induct) simp_all

lemma calls_pinchEdge:
  "pinchCalls (snd (pinchEdge debug b r)) = (if b = r then [] else [b])"
  "gestureCalls (snd (pinchEdge debug b r)) = []"
  "moveCalls (snd (pinchEdge debug b r)) = []"
  by (auto simp: pinchEdge_def)

lemma calls_commandsOf:
  "pinchCalls (commandsOf debug b gs) = []"
  "moveCalls (commandsOf debug b gs) = []"
  "gestureCalls (commandsOf debug b gs) =
     (case gs of
        [] \<Rightarrow> []
      | g # _ \<Rightarrow>
          if score (hd g) > 0.4 \<and> \<not> b then
            (if categoryName (hd g) = ''Open_Palm'' then [CHAOS]
             else if categoryName (hd g) = ''Closed_Fist'' then [FORMED] else [])
          else [])"
  by (auto simp: commandsOf_def split: list.splits)

lemma runFrames_hand:
  assumes "list_all handFrame frames"
  shows "fst (runFrames debug r frames) = last (r # map pinchOf frames)"
    and "length (snd (runFrames debug r frames)) = length frames"
  using assms
  by (induction frames arbitrary: r) (auto simp: processResults_hand split_beta)

lemma runFrames_take:
  assumes "list_all handFrame frames" "i < length frames"
  shows "snd (runFrames debug r frames) ! i
         = fst (snd (processResults debug (fst (runFrames debug r (take i frames))) (frames ! i)))"
  using assms
proof (induction frames arbitrary: r i)
  case Nil
  then show ?case by simp
next
  case (Cons f fs)
  show ?case
  proof (cases i)
    case 0
    with Cons.prems show ?thesis by (simp add: processResults_hand split_beta)
  next
    case (Suc j)
    with Cons.prems Cons.IH[of j "pinchOf f"] show ?thesis
      by (simp add: processResults_hand split_beta)
  qed
qed

lemma frameOf_simps:
  "handFrame (frameOf (openHand wx) name sc)" "handFrame (frameOf (pinchedHand wx) name sc)"
  "pinchOf (frameOf (openHand wx) name sc) = False"
  "pinchOf (frameOf (pinchedHand wx) name sc) = True"
  "r_gestures (frameOf landmarks name sc) = [[\<lparr>categoryName = name, score = sc\<rparr>]]"
  "hd (hd (r_landmarks (frameOf (openHand wx) name sc))) = pt wx 0.9 0"
  "hd (hd (r_landmarks (frameOf (pinchedHand wx) name sc))) = pt wx 0.9 0"
  by (simp_all add: handFrame_def pinchOf_def frameOf_def detect_openHand detect_pinchedHand,
      simp_all add: openHand_def pinchedHand_def hand_simps)

lemma noHand_simps: "r_landmarks noHand = []" "\<not> handFrame noHand"
  by (simp_all add: noHand_def handFrame_def)

subsection \<open>The pinch test\<close>

text \<open>
  Claim C2. For every landmark set that has the indices 4, 8 and 12,
  \<open>detectThreeFingerPinch\<close> returns true if and only if the three pairwise Euclidean
  distances between the thumb tip (4), the index tip (8) and the middle tip (12) are all
  strictly below 0.08.
\<close>

theorem pinch_iff_all_distances_below_threshold:
  assumes "12 < length landmarks"
  shows "detectThreeFingerPinch landmarks =
     Inr (sqrt ((px (landmarks ! 4) - px (landmarks ! 8)) ^ 2
                + (py (landmarks ! 4) - py (landmarks ! 8)) ^ 2
                + (pz (landmarks ! 4) - pz (landmarks ! 8)) ^ 2) < 0.08
          \<and> sqrt ((px (landmarks ! 4) - px (landmarks ! 12)) ^ 2
                + (py (landmarks ! 4) - py (landmarks ! 12)) ^ 2
                + (pz (landmarks ! 4) - pz (landmarks ! 12)) ^ 2) < 0.08
          \<and> sqrt ((px (landmarks ! 8) - px (landmarks ! 12)) ^ 2
                + (py (landmarks ! 8) - py (landmarks ! 12)) ^ 2
                + (pz (landmarks ! 8) - pz (landmarks ! 12)) ^ 2) < 0.08)"
  using assms by (simp add: detect_ok getDistance_def)

text \<open>
  At a pinched hand the test is true; at a hand whose index tip is exactly 0.08 away from
  the thumb tip it is false, the comparison being strict.
\<close>

theorem pinch_iff_all_distances_examples:
  "12 < length (pinchedHand 0.5)
   \<and> detectThreeFingerPinch (pinchedHand 0.5) = Inr True
   \<and> sqrt ((0.5 - 0.52) ^ 2 + (0.5 - 0.54) ^ 2 + (0 - 0) ^ 2) < (0.08 :: real)
   \<and> 12 < length (hand (pt 0.5 0.9 0) (pt 0.5 0.5 0) (pt 0.58 0.5 0) (pt 0.5 0.5 0))
   \<and> detectThreeFingerPinch (hand (pt 0.5 0.9 0) (pt 0.5 0.5 0) (pt 0.58 0.5 0) (pt 0.5 0.5 0))
       = Inr False
   \<and> \<not> sqrt ((0.5 - 0.58) ^ 2 + (0.5 - 0.5) ^ 2 + (0 - 0) ^ 2) < (0.08 :: real)"
proof -
  have l: "12 < length (hand w a b c)" for w a b c
    by (simp add: hand_simps)
  have ev: "detectThreeFingerPinch (hand (pt 0.5 0.9 0) (pt 0.5 0.5 0) (pt 0.58 0.5 0) (pt 0.5 0.5 0))
            = Inr False"
    by (simp add: detect_squared hand_simps sqDistance_def pt_def power2_eq_square)
  note A = pinch_iff_all_distances_below_threshold
    [OF l, of "pt 0.5 0.9 0" "pt 0.5 0.5 0" "pt 0.55 0.5 0" "pt 0.52 0.54 0"]
  note B = pinch_iff_all_distances_below_threshold
    [OF l, of "pt 0.5 0.9 0" "pt 0.5 0.5 0" "pt 0.58 0.5 0" "pt 0.5 0.5 0"]
  from A have a: "sqrt ((0.5 - 0.52) ^ 2 + (0.5 - 0.54) ^ 2 + (0 - 0) ^ 2) < (0.08 :: real)"
    unfolding detect_pinchedHand[of "0.5", unfolded pinchedHand_def] hand_simps
    by (simp add: pt_def)
  from B have b: "\<not> sqrt ((0.5 - 0.58) ^ 2 + (0.5 - 0.5) ^ 2 + (0 - 0) ^ 2) < (0.08 :: real)"
    unfolding ev hand_simps by (simp add: pt_def)
  show ?thesis
    using a b ev l detect_pinchedHand[of "0.5"] by (simp add: pinchedHand_def)
qed

subsection \<open>Pinch edge detection\<close>

text \<open>
  Claim C1. Over any sequence of processed frames that show a hand, frame \<open>i\<close> calls
  \<^verbatim>\<open>onPinch(true)\<close> exactly when the stored pinch state is false and the frame's pinch test
  is true, \<^verbatim>\<open>onPinch(false)\<close> exactly when the stored state is true and the test is false,
  and makes no pinch call when the test equals the stored state; after the frame the stored
  state is the frame's pinch test. The stored state before frame \<open>i\<close> is the ref after the
  first \<open>i\<close> frames.
\<close>

theorem pinch_events_exactly_at_transitions:
  assumes "list_all handFrame frames" and "i < length frames"
  shows "pinchCalls (snd (runFrames debug r0 frames) ! i)
         = (if \<not> fst (runFrames debug r0 (take i frames)) \<and> pinchOf (frames ! i) then [True]
            else if fst (runFrames debug r0 (take i frames)) \<and> \<not> pinchOf (frames ! i) then [False]
            else [])
         \<and> fst (runFrames debug r0 (take (Suc i) frames)) = pinchOf (frames ! i)"
proof -
  have h: "handFrame (frames ! i)"
    using assms by (simp add: list_all_length)
  have t: "list_all handFrame (take (Suc i) frames)"
    using assms(1) by (auto simp: list_all_iff dest: in_set_takeD)
  have "fst (runFrames debug r0 (take (Suc i) frames)) = pinchOf (frames ! i)"
    unfolding runFrames_hand(1)[OF t] using assms(2) by (simp add: take_Suc_conv_app_nth)
  moreover have "pinchCalls (snd (runFrames debug r0 frames) ! i)
         = (if pinchOf (frames ! i) = fst (runFrames debug r0 (take i frames)) then []
            else [pinchOf (frames ! i)])"
    by (simp add: runFrames_take[OF assms] processResults_hand[OF h] calls_pinchEdge calls_commandsOf Let_def)
  ultimately show ?thesis by auto
qed

text \<open>The per-frame tests F, F, T, T, T, F, F give one start, at index 2, and one end, at
  index 5.\<close>

theorem pinch_events_seven_frames:
  "list_all handFrame
     [frameOf (openHand 0.5) ''None'' 0.9, frameOf (openHand 0.5) ''None'' 0.9,
      frameOf (pinchedHand 0.5) ''None'' 0.9, frameOf (pinchedHand 0.5) ''None'' 0.9,
      frameOf (pinchedHand 0.5) ''None'' 0.9, frameOf (openHand 0.5) ''None'' 0.9,
      frameOf (openHand 0.5) ''None'' 0.9]
   \<and> map pinchOf
     [frameOf (openHand 0.5) ''None'' 0.9, frameOf (openHand 0.5) ''None'' 0.9,
      frameOf (pinchedHand 0.5) ''None'' 0.9, frameOf (pinchedHand 0.5) ''None'' 0.9,
      frameOf (pinchedHand 0.5) ''None'' 0.9, frameOf (openHand 0.5) ''None'' 0.9,
      frameOf (openHand 0.5) ''None'' 0.9]
     = [False, False, True, True, True, False, False]
   \<and> map pinchCalls (snd (runFrames False False
     [frameOf (openHand 0.5) ''None'' 0.9, frameOf (openHand 0.5) ''None'' 0.9,
      frameOf (pinchedHand 0.5) ''None'' 0.9, frameOf (pinchedHand 0.5) ''None'' 0.9,
      frameOf (pinchedHand 0.5) ''None'' 0.9, frameOf (openHand 0.5) ''None'' 0.9,
      frameOf (openHand 0.5) ''None'' 0.9]))
     = [[], [], [True], [], [], [False], []]"
proof -
  let ?fs = "[frameOf (openHand 0.5) ''None'' 0.9, frameOf (openHand 0.5) ''None'' 0.9,
      frameOf (pinchedHand 0.5) ''None'' 0.9, frameOf (pinchedHand 0.5) ''None'' 0.9,
      frameOf (pinchedHand 0.5) ''None'' 0.9, frameOf (openHand 0.5) ''None'' 0.9,
      frameOf (openHand 0.5) ''None'' 0.9]"
  have h: "list_all handFrame ?fs" by (simp add: frameOf_simps)
  have p: "map pinchOf ?fs = [False, False, True, True, True, False, False]"
    by (simp add: frameOf_simps)
  have n: "length (snd (runFrames False False ?fs)) = 7"
    using runFrames_hand(2)[OF h] by simp
  have e: "pinchCalls (snd (runFrames False False ?fs) ! i)
         = (if \<not> fst (runFrames False False (take i ?fs)) \<and> pinchOf (?fs ! i) then [True]
            else if fst (runFrames False False (take i ?fs)) \<and> \<not> pinchOf (?fs ! i) then [False]
            else [])" if "i < 7" for i
    using pinch_events_exactly_at_transitions[OF h, of i False False] that by simp
  have "map pinchCalls (snd (runFrames False False ?fs)) ! i
        = [[], [], [True], [], [], [False], []] ! i" if "i < 7" for i
  proof -
    from that have "i = 0 \<or> i = 1 \<or> i = 2 \<or> i = 3 \<or> i = 4 \<or> i = 5 \<or> i = 6" by arith
    then show ?thesis
      using n e[of 0] e[of 1] e[of 2] e[of 3] e[of 4] e[of 5] e[of 6]
      by (elim disjE) (simp_all add: runFrames_hand(1) frameOf_simps del: runFrames.simps)
  qed
  then have "map pinchCalls (snd (runFrames False False ?fs)) = [[], [], [True], [], [], [False], []]"
    using n by (intro nth_equalityI) simp_all
  with h p show ?thesis by blast
qed

subsection \<open>Discrete gestures\<close>

text \<open>
  Claim C3. On a processed frame with a hand, the scene-mode commands are: CHAOS when no
  pinch is detected, the top category's score exceeds 0.4 and its name is
  \<^verbatim>\<open>Open_Palm\<close>; FORMED under the same conditions for \<^verbatim>\<open>Closed_Fist\<close>; none for any other
  name, for a score of at most 0.4, for a pinch in the same frame, and when the classifier
  gives no category.
\<close>

theorem discrete_gesture_mapping:
  assumes "handFrame results"
  shows "gestureCalls (fst (snd (processResults debug r results))) =
     (case r_gestures results of
        [] \<Rightarrow> []
      | g # _ \<Rightarrow>
          if \<not> pinchOf results \<and> score (hd g) > 0.4 then
            (if categoryName (hd g) = ''Open_Palm'' then [CHAOS]
             else if categoryName (hd g) = ''Closed_Fist'' then [FORMED]
             else [])
          else [])"
  by (simp add: processResults_hand[OF assms] calls_pinchEdge calls_commandsOf split: list.splits)

text \<open>Scores 0.39 and 0.4 give no command and 0.41 gives CHAOS; a pinch suppresses the
  command whatever the classifier says.\<close>

theorem discrete_gesture_mapping_examples:
  "gestureCalls (fst (snd (processResults False False (frameOf (openHand 0.5) ''Open_Palm'' 0.39)))) = []
   \<and> gestureCalls (fst (snd (processResults False False (frameOf (openHand 0.5) ''Open_Palm'' 0.4)))) = []
   \<and> gestureCalls (fst (snd (processResults False False (frameOf (openHand 0.5) ''Open_Palm'' 0.41)))) = [CHAOS]
   \<and> gestureCalls (fst (snd (processResults False False (frameOf (openHand 0.5) ''Closed_Fist'' 0.41)))) = [FORMED]
   \<and> gestureCalls (fst (snd (processResults False False (frameOf (openHand 0.5) ''Victory'' 0.99)))) = []
   \<and> gestureCalls (fst (snd (processResults False False (frameOf (pinchedHand 0.5) ''Open_Palm'' 0.99)))) = []
   \<and> gestureCalls (fst (snd (processResults False True (frameOf (pinchedHand 0.5) ''Closed_Fist'' 0.99)))) = []"
  using discrete_gesture_mapping[of "frameOf (openHand 0.5) ''Open_Palm'' 0.39" False False]
    discrete_gesture_mapping[of "frameOf (openHand 0.5) ''Open_Palm'' 0.4" False False]
    discrete_gesture_mapping[of "frameOf (openHand 0.5) ''Open_Palm'' 0.41" False False]
    discrete_gesture_mapping[of "frameOf (openHand 0.5) ''Closed_Fist'' 0.41" False False]
    discrete_gesture_mapping[of "frameOf (openHand 0.5) ''Victory'' 0.99" False False]
    discrete_gesture_mapping[of "frameOf (pinchedHand 0.5) ''Open_Palm'' 0.99" False False]
    discrete_gesture_mapping[of "frameOf (pinchedHand 0.5) ''Closed_Fist'' 0.99" False True]
  by (simp add: frameOf_simps)

subsection \<open>Rotation control\<close>

text \<open>
  Claim C7. On a processed frame with a hand, with \<open>speed = (0.5 - wrist.x) * 0.15\<close>: the
  rotation speed passed to \<^verbatim>\<open>onMove\<close> is exactly 0 when the magnitude of \<open>speed\<close> is below
  0.01, and \<open>speed\<close> itself when the magnitude is above 0.01. On a processed frame without a
  hand it is exactly 0. The magnitude 0.01 itself is left out: it is on the boundary of
  the guard \<^verbatim>\<open>Math.abs(speed) > 0.01\<close> only in exact arithmetic, and the product takes
  that value for no double-precision \<open>wrist.x\<close>.
\<close>

theorem rotation_deadzone:
  "(handFrame results \<longrightarrow>
      (\<bar>(0.5 - px (hd (hd (r_landmarks results)))) * 0.15\<bar> < 0.01 \<longrightarrow>
         moveCalls (fst (snd (processResults debug r results))) = [0])
      \<and> (\<bar>(0.5 - px (hd (hd (r_landmarks results)))) * 0.15\<bar> > 0.01 \<longrightarrow>
         moveCalls (fst (snd (processResults debug r results)))
         = [(0.5 - px (hd (hd (r_landmarks results)))) * 0.15]))
   \<and> (r_landmarks results = [] \<longrightarrow>
      moveCalls (fst (snd (processResults debug r results))) = [0])"
  by (auto simp: processResults_hand processResults_noHand calls_pinchEdge calls_commandsOf Let_def)

text \<open>Speeds 0.009 and 0.011: the first is clamped, the second passes; a hand far to the
  right turns the scene at \<open>-0.06\<close>; no hand gives 0.\<close>

theorem rotation_deadzone_examples:
  "handFrame (frameOf (openHand 0.44) ''None'' 0)
   \<and> moveCalls (fst (snd (processResults False False (frameOf (openHand 0.44) ''None'' 0)))) = [0]
   \<and> (0.5 - 0.44) * 0.15 = (0.009 :: real)
   \<and> moveCalls (fst (snd (processResults False False (frameOf (openHand (32 / 75)) ''None'' 0)))) = [0.011]
   \<and> (0.5 - 32 / 75) * 0.15 = (0.011 :: real)
   \<and> moveCalls (fst (snd (processResults False False (frameOf (openHand 0.9) ''None'' 0)))) = [- 0.06]
   \<and> moveCalls (fst (snd (processResults True True noHand))) = [0]"
  using rotation_deadzone[of "frameOf (openHand 0.44) ''None'' 0" False False]
    rotation_deadzone[of "frameOf (openHand (32 / 75)) ''None'' 0" False False]
    rotation_deadzone[of "frameOf (openHand 0.9) ''None'' 0" False False]
    rotation_deadzone[of noHand True True]
  by (simp add: frameOf_simps noHand_simps pt_def)

section \<open>Properties of the photo overlay\<close>

lemma bodyPhotoPaths_eq:
  "bodyPhotoPaths =
     [''/photos/top.jpg'', ''/photos/1.jpg'', ''/photos/2.jpg'', ''/photos/3.jpg'',
      ''/photos/4.jpg'', ''/photos/5.jpg'', ''/photos/6.jpg'', ''/photos/7.jpg'',
      ''/photos/8.jpg'']"
  by (simp add: bodyPhotoPaths_def TOTAL_NUMBERED_PHOTOS_def upt_conv_Cons decimal.simps)

lemma bodyPhotoPaths_facts:
  "length bodyPhotoPaths = 9" "distinct bodyPhotoPaths" "\<forall>p \<in> set bodyPhotoPaths. p \<noteq> []"
  by (simp_all add: bodyPhotoPaths_eq)

lemma floor_draw:
  assumes "unitDraw u" "0 < n"
  shows "0 \<le> \<lfloor>u * real n\<rfloor>" "nat \<lfloor>u * real n\<rfloor> < n"
    "nat \<lfloor>u * real n\<rfloor> = i \<longleftrightarrow> real i / real n \<le> u \<and> u < (real i + 1) / real n"
proof -
  from assms have u: "0 \<le> u" "u < 1" by (simp_all add: unitDraw_def)
  from u assms(2) have nn: "0 \<le> u * real n" by simp
  then show f0: "0 \<le> \<lfloor>u * real n\<rfloor>" by simp
  from u assms(2) have "u * real n < real n" by simp
  then have "\<lfloor>u * real n\<rfloor> < int n" by (simp add: floor_less_iff)
  with f0 show "nat \<lfloor>u * real n\<rfloor> < n" by linarith
  have "nat \<lfloor>u * real n\<rfloor> = i \<longleftrightarrow> \<lfloor>u * real n\<rfloor> = int i"
    using f0 by linarith
  also have "\<dots> \<longleftrightarrow> real i \<le> u * real n \<and> u * real n < real i + 1"
    by (simp add: floor_eq_iff)
  also have "\<dots> \<longleftrightarrow> real i / real n \<le> u \<and> u < (real i + 1) / real n"
    using assms(2) by (simp add: pos_divide_le_eq pos_less_divide_eq)
  finally show "nat \<lfloor>u * real n\<rfloor> = i \<longleftrightarrow> real i / real n \<le> u \<and> u < (real i + 1) / real n" .
qed

lemma handlePinch_start:
  assumes "unitDraw u" "\<not> truthy (selectedPhotoRef a)"
  shows "handlePinch u True a = a\<lparr>selectedPhoto := Some (bodyPhotoPaths ! nat \<lfloor>u * 9\<rfloor>)\<rparr>"
    and "nat \<lfloor>u * 9\<rfloor> < 9"
    and "truthy (selectedPhoto (handlePinch u True a))"
proof -
  have f: "0 \<le> \<lfloor>u * 9\<rfloor>" "nat \<lfloor>u * 9\<rfloor> < 9"
    using floor_draw(1,2)[OF assms(1), of 9] by simp_all
  show e: "handlePinch u True a = a\<lparr>selectedPhoto := Some (bodyPhotoPaths ! nat \<lfloor>u * 9\<rfloor>)\<rparr>"
    using assms(2) f by (simp add: handlePinch_def Let_def bodyPhotoPaths_facts elemAt_def)
  show "nat \<lfloor>u * 9\<rfloor> < 9" by (rule f)
  have "bodyPhotoPaths ! nat \<lfloor>u * 9\<rfloor> \<in> set bodyPhotoPaths"
    using f by (simp add: bodyPhotoPaths_facts)
  then show "truthy (selectedPhoto (handlePinch u True a))"
    using bodyPhotoPaths_facts(3) by (simp add: e truthy_def)
qed

lemma handlePinch_noop: "truthy (selectedPhotoRef a) \<Longrightarrow> handlePinch u True a = a"
  by (simp add: handlePinch_def)

lemma handlePinch_end:
  "truthy (selectedPhotoRef a) \<Longrightarrow> handlePinch u False a = a\<lparr>selectedPhoto := None\<rparr>"
  "\<not> truthy (selectedPhotoRef a) \<Longrightarrow> handlePinch u False a = a"
  by (simp_all add: handlePinch_def)

lemma render_sel [simp]:
  "selectedPhotoRef (render a) = selectedPhoto a" "selectedPhoto (render a) = selectedPhoto a"
  by (simp_all add: render_def)

text \<open>
  Claim C8. The photo on screen is the one the last render showed, which the ref holds.
  For a draw \<open>u\<close> in \<open>[0, 1)\<close>: a pinch start while no photo is displayed selects one photo
  of the configured set, the photo of index \<open>i\<close> exactly when \<open>u\<close> lies in
  \<open>[i / 9, (i + 1) / 9)\<close>, so each of the nine photos has a share of \<open>1 / 9\<close> of the draws; the
  next render displays it, and a second pinch start after that render changes nothing, so
  the two starts select one photo. A pinch start while a photo is displayed changes
  nothing. A pinch end while a photo is displayed sets the state to \<^verbatim>\<open>null\<close>, and the next
  render shows no photo. The state holds at most one photo, being a \<^verbatim>\<open>string | null\<close>.
\<close>

theorem photo_overlay_single_flight:
  assumes "unitDraw u"
  shows "(\<not> truthy (selectedPhotoRef a) \<longrightarrow>
            (\<exists>i < length bodyPhotoPaths.
               handlePinch u True a = a\<lparr>selectedPhoto := Some (bodyPhotoPaths ! i)\<rparr>)
            \<and> (\<forall>i < length bodyPhotoPaths.
                 selectedPhoto (handlePinch u True a) = Some (bodyPhotoPaths ! i)
                 \<longleftrightarrow> real i / 9 \<le> u \<and> u < (real i + 1) / 9)
            \<and> truthy (selectedPhotoRef (render (handlePinch u True a)))
            \<and> handlePinch u' True (render (handlePinch u True a))
              = render (handlePinch u True a))
         \<and> (truthy (selectedPhotoRef a) \<longrightarrow> handlePinch u' True a = a)
         \<and> (truthy (selectedPhotoRef a) \<longrightarrow>
              selectedPhoto (handlePinch u False a) = None
              \<and> \<not> truthy (selectedPhotoRef (render (handlePinch u False a))))"
proof -
  have A: "\<exists>i < length bodyPhotoPaths.
               handlePinch u True a = a\<lparr>selectedPhoto := Some (bodyPhotoPaths ! i)\<rparr>"
    if "\<not> truthy (selectedPhotoRef a)"
    using handlePinch_start(1,2)[OF assms that] by (auto simp: bodyPhotoPaths_facts)
  have B: "selectedPhoto (handlePinch u True a) = Some (bodyPhotoPaths ! i)
                 \<longleftrightarrow> real i / 9 \<le> u \<and> u < (real i + 1) / 9"
    if "\<not> truthy (selectedPhotoRef a)" "i < length bodyPhotoPaths" for i
  proof -
    have "selectedPhoto (handlePinch u True a) = Some (bodyPhotoPaths ! i)
          \<longleftrightarrow> bodyPhotoPaths ! nat \<lfloor>u * 9\<rfloor> = bodyPhotoPaths ! i"
      by (simp add: handlePinch_start(1)[OF assms that(1)])
    also have "\<dots> \<longleftrightarrow> nat \<lfloor>u * 9\<rfloor> = i"
      using handlePinch_start(2)[OF assms that(1)] that(2) bodyPhotoPaths_facts(1,2)
      by (simp add: nth_eq_iff_index_eq)
    also have "\<dots> \<longleftrightarrow> real i / 9 \<le> u \<and> u < (real i + 1) / 9"
      using floor_draw(3)[OF assms, of 9 i] by simp
    finally show ?thesis .
  qed
  have C: "truthy (selectedPhotoRef (render (handlePinch u True a)))"
    "handlePinch u' True (render (handlePinch u True a)) = render (handlePinch u True a)"
    if "\<not> truthy (selectedPhotoRef a)"
  proof -
    show "truthy (selectedPhotoRef (render (handlePinch u True a)))"
      using handlePinch_start(3)[OF assms that] by simp
    then show "handlePinch u' True (render (handlePinch u True a)) = render (handlePinch u True a)"
      by (rule handlePinch_noop)
  qed
  have D: "selectedPhoto (handlePinch u False a) = None
           \<and> \<not> truthy (selectedPhotoRef (render (handlePinch u False a)))"
    if "truthy (selectedPhotoRef a)"
    using that by (simp add: handlePinch_end truthy_def)
  show ?thesis
    using A B C D by (simp add: handlePinch_noop truthy_def)
qed

text \<open>From the initial state, the draw 0.5 selects \<^verbatim>\<open>/photos/4.jpg\<close> and the render displays
  it; a second start leaves it, and an end followed by a render closes it.\<close>

theorem photo_overlay_single_flight_example:
  "unitDraw 0.5
   \<and> \<not> truthy (selectedPhotoRef blankApp)
   \<and> selectedPhoto (handlePinch 0.5 True blankApp) = Some ''/photos/4.jpg''
   \<and> selectedPhotoRef (render (handlePinch 0.5 True blankApp)) = Some ''/photos/4.jpg''
   \<and> handlePinch 0.1 True (render (handlePinch 0.5 True blankApp))
     = render (handlePinch 0.5 True blankApp)
   \<and> selectedPhotoRef (render (handlePinch 0.1 False (render (handlePinch 0.5 True blankApp))))
     = None"
proof -
  have u: "unitDraw 0.5" by (simp add: unitDraw_def)
  have n: "\<not> truthy (selectedPhotoRef blankApp)" by (simp add: blankApp_def truthy_def)
  have f: "\<lfloor>0.5 * 9 :: real\<rfloor> = 4" by (simp add: floor_eq_iff)
  have s: "selectedPhoto (handlePinch 0.5 True blankApp) = Some ''/photos/4.jpg''"
    using f by (simp add: handlePinch_def blankApp_def truthy_def Let_def bodyPhotoPaths_eq elemAt_def)
  then have t: "truthy (selectedPhotoRef (render (handlePinch 0.5 True blankApp)))"
    by (simp add: truthy_def)
  from photo_overlay_single_flight[OF u, of blankApp "0.1"] n
  have "handlePinch 0.1 True (render (handlePinch 0.5 True blankApp))
        = render (handlePinch 0.5 True blankApp)"
    by blast
  moreover have u1: "unitDraw 0.1" by (simp add: unitDraw_def)
  from photo_overlay_single_flight[OF u1, of "render (handlePinch 0.5 True blankApp)" "0.1"] t
  have "selectedPhoto (handlePinch 0.1 False (render (handlePinch 0.5 True blankApp))) = None"
    by blast
  ultimately show ?thesis using u n s by simp
qed

subsection \<open>Hand loss during a pinch\<close>

lemma selectedPhoto_dispatch:
  "pinchCalls cs = [] \<Longrightarrow> selectedPhoto (foldl (\<lambda>a c. dispatch u c a) a cs) = selectedPhoto a"
proof (induction cs arbitrary: a)
  case Nil
  show ?case by simp
next
  case (Cons c cs)
  then show ?case by (cases c) simp_all
qed

lemma appFrame_noHand:
  assumes "r_landmarks f = []"
  shows "appFrame u f (r, a) =
     ((r, if debugMode a then a\<lparr>rotationSpeed := 0, aiStatus := ''AI READY: NO HAND''\<rparr>
          else a\<lparr>rotationSpeed := 0\<rparr>), None)"
  using assms by (simp add: appFrame_def processResults_noHand)

lemma appFrames_noHand:
  assumes "list_all (\<lambda>f. r_landmarks (snd f) = []) frames"
  shows "fst (appFrames frames (r, a)) = r"
    and "selectedPhoto (snd (appFrames frames (r, a))) = selectedPhoto a"
    and "frames \<noteq> [] \<Longrightarrow> rotationSpeed (snd (appFrames frames (r, a))) = 0"
    and "selectedPhotoRef (snd (appFrames frames (r, a))) = selectedPhotoRef a"
  using assms
proof (induction frames arbitrary: a)
  case Nil
  { case 1 show ?case by simp }
  { case 2 show ?case by simp }
  { case 3 then show ?case by simp }
  { case 4 show ?case by simp }
next
  case (Cons f fs)
  obtain u g where f: "f = (u, g)" by (cases f)
  { case 1 with Cons.IH(1) f show ?case by (simp add: appFrame_noHand) }
  { case 2 with Cons.IH(2) f show ?case by (simp add: appFrame_noHand) }
  { case 4 with Cons.IH(4) f show ?case by (simp add: appFrame_noHand) }
  { case 3
    show ?case
    proof (cases fs)
      case Nil
      with 3 f show ?thesis by (simp add: appFrame_noHand)
    next
      case (Cons h hs)
      with 3 Cons.IH(3) f show ?thesis by (simp add: appFrame_noHand)
    qed }
qed

lemma appFrame_release:
  assumes "handFrame g" "\<not> pinchOf g" "truthy (selectedPhotoRef a)"
  shows "fst (fst (appFrame u g (True, a))) = False"
    and "selectedPhoto (snd (fst (appFrame u g (True, a)))) = None"
    and "snd (appFrame u g (True, a)) = None"
proof -
  show "fst (fst (appFrame u g (True, a))) = False"
    using assms by (simp add: appFrame_def processResults_hand)
  show "snd (appFrame u g (True, a)) = None"
    using assms by (simp add: appFrame_def processResults_hand)
  show "selectedPhoto (snd (fst (appFrame u g (True, a)))) = None"
    using assms
    by (simp add: appFrame_def processResults_hand pinchEdge_def
        selectedPhoto_dispatch calls_commandsOf handlePinch_end Let_def)
qed

text \<open>
  Claim C10. Over any run of processed frames without a hand, entered with the pinch state
  true: no frame makes a pinch call, the pinch state stays true, every frame passes the
  rotation speed 0, and the photo state and the photo on screen (the ref) are after the run
  what they were before it, so that a render changes nothing when the state was on screen.
  With a photo on screen, a later frame with a hand whose pinch test is false makes the
  call \<^verbatim>\<open>onPinch(false)\<close>, which resets the pinch state and closes the photo; so does the
  explicit dismissal.
\<close>

theorem hand_loss_keeps_pinch_and_photo:
  assumes "list_all (\<lambda>f. r_landmarks (snd f) = []) frames"
  shows "list_all (\<lambda>f. pinchCalls (fst (snd (processResults debug True (snd f)))) = []
                       \<and> fst (processResults debug True (snd f)) = True
                       \<and> moveCalls (fst (snd (processResults debug True (snd f)))) = [0]) frames
         \<and> fst (appFrames frames (True, a)) = True
         \<and> selectedPhoto (snd (appFrames frames (True, a))) = selectedPhoto a
         \<and> selectedPhotoRef (snd (appFrames frames (True, a))) = selectedPhotoRef a
         \<and> (selectedPhotoRef a = selectedPhoto a \<longrightarrow>
              render (snd (appFrames frames (True, a))) = snd (appFrames frames (True, a)))
         \<and> (frames \<noteq> [] \<longrightarrow> rotationSpeed (snd (appFrames frames (True, a))) = 0)
         \<and> (handFrame g \<and> \<not> pinchOf g \<and> truthy (selectedPhotoRef a) \<longrightarrow>
              pinchCalls (fst (snd (processResults debug True g))) = [False]
              \<and> fst (fst (appFrame u g (appFrames frames (True, a)))) = False
              \<and> selectedPhoto (snd (fst (appFrame u g (appFrames frames (True, a))))) = None)
         \<and> selectedPhoto (closePhotoOverlay (snd (appFrames frames (True, a)))) = None"
proof -
  have 1: "list_all (\<lambda>f. pinchCalls (fst (snd (processResults debug True (snd f)))) = []
                       \<and> fst (processResults debug True (snd f)) = True
                       \<and> moveCalls (fst (snd (processResults debug True (snd f)))) = [0]) frames"
    using assms by (auto simp: list_all_iff processResults_noHand)
  obtain a' where s: "appFrames frames (True, a) = (True, a')" "selectedPhoto a' = selectedPhoto a"
    "selectedPhotoRef a' = selectedPhotoRef a"
    using appFrames_noHand(1,2,4)[OF assms, of True a]
    by (cases "appFrames frames (True, a)") auto
  have 2: "pinchCalls (fst (snd (processResults debug True g))) = [False]
              \<and> fst (fst (appFrame u g (appFrames frames (True, a)))) = False
              \<and> selectedPhoto (snd (fst (appFrame u g (appFrames frames (True, a))))) = None"
    if "handFrame g" "\<not> pinchOf g" "truthy (selectedPhotoRef a)"
    using that appFrame_release(1,2)[of g a' u] s
    by (simp add: processResults_hand calls_pinchEdge calls_commandsOf)
  have 3: "render (snd (appFrames frames (True, a))) = snd (appFrames frames (True, a))"
    if "selectedPhotoRef a = selectedPhoto a"
    using that s by (simp add: render_def)
  show ?thesis
    using 1 2 3 appFrames_noHand[OF assms, of True a]
    by (simp add: closePhotoOverlay_def)
qed

text \<open>Two frames without a hand while \<^verbatim>\<open>/photos/4.jpg\<close> is on screen, then an open hand.\<close>

theorem hand_loss_example:
  "list_all (\<lambda>f. r_landmarks (snd f) = []) [(0.2, noHand), (0.7, noHand)]
   \<and> truthy (selectedPhotoRef (render (blankApp\<lparr>selectedPhoto := Some ''/photos/4.jpg''\<rparr>)))
   \<and> fst (appFrames [(0.2, noHand), (0.7, noHand)]
            (True, render (blankApp\<lparr>selectedPhoto := Some ''/photos/4.jpg''\<rparr>))) = True
   \<and> selectedPhoto (snd (appFrames [(0.2, noHand), (0.7, noHand)]
            (True, render (blankApp\<lparr>selectedPhoto := Some ''/photos/4.jpg''\<rparr>))))
     = Some ''/photos/4.jpg''
   \<and> selectedPhotoRef (snd (appFrames [(0.2, noHand), (0.7, noHand)]
            (True, render (blankApp\<lparr>selectedPhoto := Some ''/photos/4.jpg''\<rparr>))))
     = Some ''/photos/4.jpg''
   \<and> rotationSpeed (snd (appFrames [(0.2, noHand), (0.7, noHand)]
            (True, render (blankApp\<lparr>selectedPhoto := Some ''/photos/4.jpg''\<rparr>)))) = 0
   \<and> selectedPhoto (snd (fst (appFrame 0.3 (frameOf (openHand 0.5) ''None'' 0)
        (appFrames [(0.2, noHand), (0.7, noHand)]
            (True, render (blankApp\<lparr>selectedPhoto := Some ''/photos/4.jpg''\<rparr>)))))) = None"
proof -
  have n: "list_all (\<lambda>f. r_landmarks (snd f) = []) [(0.2, noHand), (0.7, noHand)]"
    by (simp add: noHand_simps)
  have t: "truthy (selectedPhotoRef (render (blankApp\<lparr>selectedPhoto := Some ''/photos/4.jpg''\<rparr>)))"
    by (simp add: truthy_def)
  show ?thesis
    using hand_loss_keeps_pinch_and_photo[OF n,
        of False "render (blankApp\<lparr>selectedPhoto := Some ''/photos/4.jpg''\<rparr>)"
           "frameOf (openHand 0.5) ''None'' 0" "0.3"] n t
    by (simp add: frameOf_simps del: appFrames.simps)
qed

section \<open>Properties of the classifier set-up\<close>

lemma includesStr_prefix: "prefix sub s \<Longrightarrow> includesStr s sub"
  by (cases s) simp_all

lemma errorStatus_isError: "isErrorStatus (errorStatus err)"
  unfolding isErrorStatus_def errorStatus_def
  by (rule includesStr_prefix) simp

lemma plain_statuses:
  "\<not> isErrorStatus ''DOWNLOADING AI...''" "\<not> isErrorStatus gpuUnavailable"
  "\<not> isErrorStatus ''REQUESTING CAMERA...''" "\<not> isErrorStatus ''AI READY: SHOW HAND''"
  "isErrorStatus ''ERROR: CAMERA PERMISSION DENIED''"
  by (simp_all add: isErrorStatus_def gpuUnavailable_def)

text \<open>
  Claim C9. When the fileset resolves and creating the recognizer with the preferred GPU
  delegate fails, the set-up reports the switch and creates the recognizer with the CPU
  delegate. If that fails too, the set-up ends with the error status of that failure and
  without a recognizer. If it succeeds, the recognizer is the CPU one and no error status
  has been reported when the camera is requested; the whole set-up then reports no error
  status provided the camera steps succeed (a camera failure is reported as such).
\<close>

theorem gpu_failure_falls_back_to_cpu:
  assumes "visionFails env = None" and "createFails env GPU = Some err"
  shows "take 4 (fst (setupController GPU env))
           = [Status ''DOWNLOADING AI...'', CreateRecognizer GPU, Status gpuUnavailable,
              CreateRecognizer CPU]
         \<and> (\<forall>err2. createFails env CPU = Some err2 \<longrightarrow>
               setupController GPU env
               = ([Status ''DOWNLOADING AI...'', CreateRecognizer GPU, Status gpuUnavailable,
                   CreateRecognizer CPU, Status (errorStatus err2)], None)
               \<and> isErrorStatus (errorStatus err2))
         \<and> (createFails env CPU = None \<longrightarrow>
               setupController GPU env
               = ([Status ''DOWNLOADING AI...'', CreateRecognizer GPU, Status gpuUnavailable,
                   CreateRecognizer CPU] @ requestCamera env, Some CPU)
               \<and> \<not> list_ex isErrorStatus (statuses (take 5 (fst (setupController GPU env))))
               \<and> (mediaDevices env \<and> getUserMediaFails env = None \<and> firstFrameFails env = None
                    \<longrightarrow> \<not> list_ex isErrorStatus (statuses (fst (setupController GPU env)))))"
  using assms
  by (auto simp: setupController_def createWithFallback_def requestCamera_def
      errorStatus_isError plain_statuses split: option.splits)

text \<open>The GPU delegate fails and the CPU delegate works; then both fail.\<close>

theorem gpu_fallback_examples:
  "preferredDelegate HIGH = GPU
   \<and> setupController GPU (env0\<lparr>createFails := (\<lambda>d. if d = GPU then Some \<lparr>message = Some ''no webgl''\<rparr> else None)\<rparr>)
     = ([Status ''DOWNLOADING AI...'', CreateRecognizer GPU, Status gpuUnavailable,
         CreateRecognizer CPU, Status ''REQUESTING CAMERA...'', GetUserMedia,
         Status ''AI READY: SHOW HAND'', PredictWebcam], Some CPU)
   \<and> setupController GPU (env0\<lparr>createFails := (\<lambda>d. Some \<lparr>message = Some ''no wasm''\<rparr>)\<rparr>)
     = ([Status ''DOWNLOADING AI...'', CreateRecognizer GPU, Status gpuUnavailable,
         CreateRecognizer CPU, Status ''ERROR: no wasm''], None)"
proof -
  let ?e1 = "env0\<lparr>createFails := (\<lambda>d. if d = GPU then Some \<lparr>message = Some ''no webgl''\<rparr> else None)\<rparr>"
  let ?e2 = "env0\<lparr>createFails := (\<lambda>d. Some \<lparr>message = Some ''no wasm''\<rparr>)\<rparr>"
  have 1: "visionFails ?e1 = None" "createFails ?e1 GPU = Some \<lparr>message = Some ''no webgl''\<rparr>"
    "createFails ?e1 CPU = None"
    by (simp_all add: env0_def)
  have 2: "visionFails ?e2 = None" "createFails ?e2 GPU = Some \<lparr>message = Some ''no wasm''\<rparr>"
    "createFails ?e2 CPU = Some \<lparr>message = Some ''no wasm''\<rparr>"
    by (simp_all add: env0_def)
  have r: "requestCamera ?e1 = [Status ''REQUESTING CAMERA...'', GetUserMedia,
         Status ''AI READY: SHOW HAND'', PredictWebcam]"
    by (simp add: requestCamera_def env0_def)
  have m: "errorStatus \<lparr>message = Some ''no wasm''\<rparr> = ''ERROR: no wasm''"
    by (simp add: errorStatus_def truthy_def)
  from gpu_failure_falls_back_to_cpu[OF 1(1,2)] 1(3) r
  have a: "setupController GPU ?e1 = ([Status ''DOWNLOADING AI...'', CreateRecognizer GPU, Status gpuUnavailable,
         CreateRecognizer CPU, Status ''REQUESTING CAMERA...'', GetUserMedia,
         Status ''AI READY: SHOW HAND'', PredictWebcam], Some CPU)"
    by simp
  from gpu_failure_falls_back_to_cpu[OF 2(1,2)] 2(3) m
  have b: "setupController GPU ?e2 = ([Status ''DOWNLOADING AI...'', CreateRecognizer GPU, Status gpuUnavailable,
         CreateRecognizer CPU, Status ''ERROR: no wasm''], None)"
    by simp
  from a b show ?thesis by simp
qed

section \<open>Properties of the morph scheduler\<close>

subsection \<open>Interpolation\<close>

lemma lerpV_sel [simp]:
  "px (lerpV a b t) = px a + (px b - px a) * t"
  "py (lerpV a b t) = py a + (py b - py a) * t"
  "pz (lerpV a b t) = pz a + (pz b - pz a) * t"
  by (simp_all add: lerpV_def)

lemma lerpV_0 [simp]: "lerpV a b 0 = a"
  by (simp add: lerpV_def)

lemma sqrt_scaled: "sqrt ((a * t)\<^sup>2 + (b * t)\<^sup>2 + (c * t)\<^sup>2) = \<bar>t\<bar> * sqrt (a\<^sup>2 + b\<^sup>2 + c\<^sup>2)"
proof -
  have "(a * t)\<^sup>2 + (b * t)\<^sup>2 + (c * t)\<^sup>2 = t\<^sup>2 * (a\<^sup>2 + b\<^sup>2 + c\<^sup>2)"
    by (simp add: algebra_simps)
  then show ?thesis by (simp add: real_sqrt_mult)
qed


lemma lerpV_remaining: "getDistance (lerpV a b t) b = \<bar>1 - t\<bar> * getDistance a b"
proof -
  have "px a + (px b - px a) * t - px b = (px a - px b) * (1 - t)"
    "py a + (py b - py a) * t - py b = (py a - py b) * (1 - t)"
    "pz a + (pz b - pz a) * t - pz b = (pz a - pz b) * (1 - t)"
    by (simp_all add: algebra_simps)
  then show ?thesis
    unfolding getDistance_def lerpV_sel
    using sqrt_scaled[of "px a - px b" "1 - t" "py a - py b" "pz a - pz b"] by simp
qed





lemma renderFrame_pools:
  "ornaments (w_pools (renderFrame d w)) = map (ornamentFrame (sceneState (w_app w)) d) (ornaments (w_pools w))"
  "elements (w_pools (renderFrame d w)) = map (elementFrame (sceneState (w_app w)) d) (elements (w_pools w))"
  "lights (w_pools (renderFrame d w)) = map (lightFrame (sceneState (w_app w)) d) (lights (w_pools w))"
  "foliagePool (w_pools (renderFrame d w)) =
     foliageFrame (sceneState (w_app w)) (w_elapsedTime w + d) d (foliagePool (w_pools w))"
  "w_app (renderFrame d w) = w_app w"
  "w_elapsedTime (renderFrame d w) = w_elapsedTime w + d"
  by (simp_all add: renderFrame_def sceneFrame_def Let_def)

lemma getDistance_axis: "getDistance (pt a b c) (pt a' b c) = \<bar>a - a'\<bar>"
  by (simp add: getDistance_def pt_def)

lemma demo_light:
  "mkLight demoDraws = \<lparr>chaosPos = pt 0 0 0, targetPos = pt 4.8 0 0, currentPos = pt 0 0 0\<rparr>"
  by (simp add: mkLight_def demoDraws_def TREE_height_def TREE_radius_def pt_def Let_def)

lemma demo_lights:
  "length (lights (w_pools demoWorld)) = 150"
  "i < 150 \<Longrightarrow> lights (w_pools demoWorld) ! i = mkLight demoDraws"
  by (simp_all add: demoWorld_def mkPools_def demoRandom_def)

lemma formed_demo:
  "sceneState (w_app (setSceneState FORMED demoWorld)) = FORMED"
  "w_pools (setSceneState FORMED demoWorld) = w_pools demoWorld"
  by (simp_all add: setSceneState_def)


subsection \<open>Runs of mode commands and frames\<close>

lemma frame_fixed [simp]:
  "chaosPos (lightFrame m d e) = chaosPos e" "targetPos (lightFrame m d e) = targetPos e"
  "chaosPos (elementFrame m d e) = chaosPos e" "targetPos (elementFrame m d e) = targetPos e"
  "chaosPos (ornamentFrame m d ob) = chaosPos ob" "targetPos (ornamentFrame m d ob) = targetPos ob"
  "weight (ornamentFrame m d ob) = weight ob"
  by (simp_all add: lightFrame_def elementFrame_def ornamentFrame_def Let_def)

lemma setSceneState_sel [simp]:
  "w_pools (setSceneState m w) = w_pools w" "sceneState (w_app (setSceneState m w)) = m"
  by (simp_all add: setSceneState_def)

lemma runModes_simps [simp]:
  "runModes [] w = w"
  "runModes (steps @ [(m, d)]) w = renderFrame d (setSceneState m (runModes steps w))"
  by (simp_all add: runModes_def)









subsection \<open>Convergence\<close>

lemma approach_distance:
  "getDistance (foldl (\<lambda>p d. lerpV p t (d * rate)) p ds) t
   = prod_list (map (\<lambda>d. \<bar>1 - d * rate\<bar>) ds) * getDistance p t"
  by (induction ds arbitrary: p) (simp_all add: lerpV_remaining)

text \<open>An interpolation factor in \<open>[0, b]\<close> with \<open>b < 2\<close> shrinks the distance at least as
  much as a damping of rate \<open>(2 - b) / 2\<close>.\<close>

lemma factor_exp:
  fixes x b :: real
  assumes "0 \<le> x" "x \<le> b" "b < 2"
  shows "\<bar>1 - x\<bar> \<le> exp (- ((2 - b) / 2) * x)"
proof -
  define k where "k = (2 - b) / 2"
  have k: "0 < k" "k \<le> 1" using assms by (simp_all add: k_def)
  have "k * x \<le> 1 * x" using k(2) assms(1) by (rule mult_right_mono)
  then have up: "1 - x \<le> 1 - k * x" by simp
  have "(1 + k) * x \<le> (1 + k) * b" using assms(2) k(1) by (intro mult_left_mono) simp_all
  moreover have "(1 + k) * b = 2 - (b - 2)\<^sup>2 / 2"
    by (simp add: k_def power2_eq_square field_simps)
  moreover have "0 \<le> (b - 2)\<^sup>2" by simp
  ultimately have "(1 + k) * x \<le> 2" by linarith
  then have down: "x - 1 \<le> 1 - k * x" by (simp add: algebra_simps)
  have "1 + (- (k * x)) \<le> exp (- (k * x))" by (rule exp_ge_add_one_self)
  with up down have "\<bar>1 - x\<bar> \<le> exp (- (k * x))" by linarith
  then show ?thesis by (simp add: k_def)
qed

lemma prod_list_exp:
  fixes f :: "real \<Rightarrow> real" and c :: real
  assumes "\<forall>d \<in> set ds. 0 \<le> f d \<and> f d \<le> exp (- c * d)"
  shows "0 \<le> prod_list (map f ds) \<and> prod_list (map f ds) \<le> exp (- c * sum_list ds)"
  using assms
proof (induction ds)
  case Nil
  show ?case by simp
next
  case (Cons d ds)
  then have 1: "0 \<le> f d" "f d \<le> exp (- c * d)" "0 \<le> prod_list (map f ds)"
    "prod_list (map f ds) \<le> exp (- c * sum_list ds)"
    by simp_all
  have "f d * prod_list (map f ds) \<le> exp (- c * d) * exp (- c * sum_list ds)"
    using 1 by (intro mult_mono) simp_all
  also have "\<dots> = exp (- c * (d + sum_list ds))"
    by (simp add: exp_add [symmetric] algebra_simps)
  finally show ?case using 1 by simp
qed

lemma exp_decay_below:
  fixes D eps c :: real
  assumes "0 < eps" "0 < c"
  shows "\<exists>T. \<forall>s\<ge>T. \<bar>exp (- c * s) * D\<bar> < eps"
proof -
  have "\<bar>exp (- c * s) * D\<bar> < eps" if s: "\<bar>D\<bar> / (eps * c) \<le> s" for s
  proof -
    have "0 \<le> \<bar>D\<bar> / (eps * c)" using assms by simp
    with s have s0: "0 \<le> s" by linarith
    then have cs: "0 \<le> c * s" using assms(2) by simp
    have "1 + c * s \<le> exp (c * s)" by (rule exp_ge_add_one_self)
    then have "exp (- c * s) \<le> 1 / (1 + c * s)"
      using cs by (simp add: exp_minus divide_simps del: exp_le_cancel_iff)
    then have "exp (- c * s) * \<bar>D\<bar> \<le> 1 / (1 + c * s) * \<bar>D\<bar>"
      by (rule mult_right_mono) simp
    also have "\<dots> < eps"
    proof -
      from s assms have "\<bar>D\<bar> \<le> s * (eps * c)" by (simp add: pos_divide_le_eq)
      also have "\<dots> = c * s * eps" by simp
      also have "\<dots> < (1 + c * s) * eps"
        using assms(1) by (simp add: algebra_simps)
      finally have "\<bar>D\<bar> < (1 + c * s) * eps" .
      moreover have "0 < 1 + c * s" using cs by linarith
      ultimately show ?thesis by (simp add: pos_divide_less_eq mult.commute)
    qed
    finally show ?thesis by (simp add: abs_mult)
  qed
  then show ?thesis by blast
qed

lemma approach_converges:
  fixes eps dmax rate :: real
  assumes "0 < eps" "0 < rate" "dmax * rate < 2"
  shows "\<exists>T. \<forall>ds. list_all (\<lambda>d. 0 \<le> d \<and> d \<le> dmax) ds \<and> T \<le> sum_list ds
           \<longrightarrow> getDistance (foldl (\<lambda>p d. lerpV p t (d * rate)) p ds) t < eps"
proof -
  define c where "c = (2 - dmax * rate) / 2 * rate"
  have c: "0 < c" using assms by (simp add: c_def)
  from exp_decay_below[OF assms(1) c] obtain T
    where T: "\<And>s. T \<le> s \<Longrightarrow> \<bar>exp (- c * s) * getDistance p t\<bar> < eps" by blast
  have "getDistance (foldl (\<lambda>p d. lerpV p t (d * rate)) p ds) t < eps"
    if b: "list_all (\<lambda>d. 0 \<le> d \<and> d \<le> dmax) ds" and s: "T \<le> sum_list ds" for ds
  proof -
    have "0 \<le> \<bar>1 - d * rate\<bar> \<and> \<bar>1 - d * rate\<bar> \<le> exp (- c * d)" if "d \<in> set ds" for d
    proof -
      from b that have d: "0 \<le> d" "d \<le> dmax" by (simp_all add: list_all_iff)
      then have "0 \<le> d * rate" "d * rate \<le> dmax * rate"
        using assms(2) by (simp_all add: mult_right_mono)
      from factor_exp[OF this assms(3)]
      have "\<bar>1 - d * rate\<bar> \<le> exp (- ((2 - dmax * rate) / 2) * (d * rate))" .
      also have "- ((2 - dmax * rate) / 2) * (d * rate) = - c * d"
        by (simp add: c_def algebra_simps)
      finally show ?thesis by simp
    qed
    then have "\<forall>d \<in> set ds. 0 \<le> \<bar>1 - d * rate\<bar> \<and> \<bar>1 - d * rate\<bar> \<le> exp (- c * d)"
      by blast
    from prod_list_exp[OF this]
    have "prod_list (map (\<lambda>d. \<bar>1 - d * rate\<bar>) ds) \<le> exp (- c * sum_list ds)" by simp
    moreover have "0 \<le> getDistance p t" by (simp add: getDistance_def)
    ultimately have "prod_list (map (\<lambda>d. \<bar>1 - d * rate\<bar>) ds) * getDistance p t
        \<le> exp (- c * sum_list ds) * getDistance p t"
      by (rule mult_right_mono)
    with T[OF s] show ?thesis by (simp add: approach_distance)
  qed
  then show ?thesis by blast
qed

lemma renderFrames_simps [simp]:
  "renderFrames [] w = w"
  "renderFrames (d # ds) w = renderFrames ds (renderFrame d w)"
  by (simp_all add: renderFrames_def)

lemma renderFrames_app [simp]: "w_app (renderFrames ds w) = w_app w"
  by (induction ds arbitrary: w) (simp_all add: renderFrame_pools)

lemma renderFrames_pools:
  "lights (w_pools (renderFrames ds w))
   = map (\<lambda>e. foldl (\<lambda>e d. lightFrame (sceneState (w_app w)) d e) e ds) (lights (w_pools w))"
  "elements (w_pools (renderFrames ds w))
   = map (\<lambda>e. foldl (\<lambda>e d. elementFrame (sceneState (w_app w)) d e) e ds) (elements (w_pools w))"
  "ornaments (w_pools (renderFrames ds w))
   = map (\<lambda>e. foldl (\<lambda>e d. ornamentFrame (sceneState (w_app w)) d e) e ds) (ornaments (w_pools w))"
  by (induction ds arbitrary: w) (simp_all add: renderFrame_pools)

lemma light_run:
  "targetPos (foldl (\<lambda>e d. lightFrame FORMED d e) e ds) = targetPos e
   \<and> currentPos (foldl (\<lambda>e d. lightFrame FORMED d e) e ds)
     = foldl (\<lambda>p d. lerpV p (targetPos e) (d * 2)) (currentPos e) ds"
  by (induction ds arbitrary: e) (simp_all add: lightFrame_def)

lemma element_run:
  "targetPos (foldl (\<lambda>e d. elementFrame FORMED d e) e ds) = targetPos e
   \<and> currentPos (foldl (\<lambda>e d. elementFrame FORMED d e) e ds)
     = foldl (\<lambda>p d. lerpV p (targetPos e) (d * 1.5)) (currentPos e) ds"
  by (induction ds arbitrary: e) (simp_all add: elementFrame_def)

lemma ornament_run:
  "targetPos (foldl (\<lambda>e d. ornamentFrame FORMED d e) e ds) = targetPos e
   \<and> weight (foldl (\<lambda>e d. ornamentFrame FORMED d e) e ds) = weight e
   \<and> currentPos (foldl (\<lambda>e d. ornamentFrame FORMED d e) e ds)
     = foldl (\<lambda>p d. lerpV p (targetPos e) (d * (0.8 * weight e))) (currentPos e) ds"
  by (induction ds arbitrary: e) (simp_all add: ornamentFrame_def)

subsection \<open>The foliage: the damped progress and the drawn points\<close>

lemma damp_to_one: "1 - damp u 1 lam d = exp (- lam * d) * (1 - u)"
  by (simp add: damp_def lerp_def algebra_simps)

lemma foliageFrame_fixed [simp]:
  "positions (foliageFrame m time d f) = positions f"
  "targetPositions (foliageFrame m time d f) = targetPositions f"
  "uTime (foliageFrame m time d f) = time"
  by (simp_all add: foliageFrame_def)

lemma foliage_run:
  assumes "sceneState (w_app w) = FORMED"
  shows "1 - uProgress (foliagePool (w_pools (renderFrames ds w)))
         = exp (- 1.5 * sum_list ds) * (1 - uProgress (foliagePool (w_pools w)))"
  using assms
proof (induction ds arbitrary: w)
  case Nil
  show ?case by simp
next
  case (Cons d ds)
  have "1 - uProgress (foliagePool (w_pools (renderFrame d w)))
      = exp (- 1.5 * d) * (1 - uProgress (foliagePool (w_pools w)))"
    using damp_to_one[of "uProgress (foliagePool (w_pools w))" "1.5" d] Cons.prems
    by (simp add: renderFrame_pools foliageFrame_def)
  moreover have "exp (- 1.5 * sum_list ds) * exp (- 1.5 * d) = exp (- 1.5 * (d + sum_list ds))"
    by (simp add: exp_add [symmetric] algebra_simps)
  moreover have "sceneState (w_app (renderFrame d w)) = FORMED"
    using Cons.prems by (simp add: renderFrame_pools)
  ultimately show ?case
    using Cons.IH[of "renderFrame d w"] by (simp add: mult.assoc [symmetric])
qed

lemma foliage_attributes:
  "positions (foliagePool (w_pools (renderFrames ds w))) = positions (foliagePool (w_pools w))"
  "targetPositions (foliagePool (w_pools (renderFrames ds w)))
   = targetPositions (foliagePool (w_pools w))"
  by (induction ds arbitrary: w) (simp_all add: renderFrame_pools)

lemma drawnPoints_nth:
  assumes "i < length (drawnPoints f)"
  shows "drawnPoints f ! i = finalPos (uTime f) (uProgress f) (positions f ! i) (targetPositions f ! i)"
  using assms by (simp add: drawnPoints_def)

lemma cubicInOut_near:
  assumes "\<bar>1 - u\<bar> \<le> 1 / 2"
  shows "\<bar>1 - cubicInOut u\<bar> \<le> \<bar>1 - u\<bar>"
proof -
  from assms have u: "\<not> u < 1 / 2" by linarith
  have "1 - cubicInOut u = 4 * (1 - u) ^ 3"
    using u by (simp add: cubicInOut_def power3_eq_cube algebra_simps)
  then have "\<bar>1 - cubicInOut u\<bar> = \<bar>1 - u\<bar> * (4 * \<bar>1 - u\<bar>\<^sup>2)"
    by (simp add: abs_mult power_abs power3_eq_cube power2_eq_square)
  moreover have "\<bar>1 - u\<bar>\<^sup>2 \<le> (1 / 2)\<^sup>2"
    using assms by (intro power_mono) simp_all
  then have "4 * \<bar>1 - u\<bar>\<^sup>2 \<le> 1" by (simp add: power2_eq_square)
  then have "\<bar>1 - u\<bar> * (4 * \<bar>1 - u\<bar>\<^sup>2) \<le> \<bar>1 - u\<bar> * 1"
    by (intro mult_left_mono) simp_all
  ultimately show ?thesis by simp
qed

lemma mix_near:
  fixes a b n t k :: real
  assumes "\<bar>n\<bar> \<le> 0.15" "\<bar>1 - t\<bar> \<le> k"
  shows "\<bar>mix a (b + n) t - b\<bar> \<le> 0.15 + k * (\<bar>a - b\<bar> + 0.15)"
proof -
  have k: "0 \<le> k" using assms(2) by linarith
  have "mix a (b + n) t - b = (1 - t) * (a - b) + t * n"
    by (simp add: mix_def algebra_simps)
  then have "\<bar>mix a (b + n) t - b\<bar> \<le> \<bar>1 - t\<bar> * \<bar>a - b\<bar> + \<bar>t\<bar> * \<bar>n\<bar>"
    by (metis abs_mult abs_triangle_ineq)
  moreover have "\<bar>1 - t\<bar> * \<bar>a - b\<bar> \<le> k * \<bar>a - b\<bar>"
    using assms(2) by (intro mult_right_mono) simp_all
  moreover have "\<bar>t\<bar> * \<bar>n\<bar> \<le> (1 + k) * 0.15"
  proof (intro mult_mono)
    show "\<bar>t\<bar> \<le> 1 + k" using assms(2) by linarith
    show "\<bar>n\<bar> \<le> 0.15" by (rule assms(1))
    show "0 \<le> 1 + k" using k by simp
    show "0 \<le> \<bar>n\<bar>" by simp
  qed
  ultimately show ?thesis by (simp add: algebra_simps)
qed

lemma finalPos_near:
  assumes "\<bar>1 - u\<bar> \<le> 1 / 2"
  shows "\<bar>px (finalPos time u p q) - px q\<bar> \<le> 0.15 + \<bar>1 - u\<bar> * (\<bar>px p - px q\<bar> + 0.15)"
    and "\<bar>py (finalPos time u p q) - py q\<bar> \<le> 0.15 + \<bar>1 - u\<bar> * (\<bar>py p - py q\<bar> + 0.15)"
    and "\<bar>pz (finalPos time u p q) - pz q\<bar> \<le> 0.15 + \<bar>1 - u\<bar> * (\<bar>pz p - pz q\<bar> + 0.15)"
proof -
  note c = cubicInOut_near[OF assms]
  have s: "\<bar>sin x * 0.15\<bar> \<le> 0.15" and co: "\<bar>cos x * 0.15\<bar> \<le> 0.15" for x :: real
    by (simp_all add: abs_mult)
  show "\<bar>px (finalPos time u p q) - px q\<bar> \<le> 0.15 + \<bar>1 - u\<bar> * (\<bar>px p - px q\<bar> + 0.15)"
    using mix_near[OF s[of "time * 1.5 + px p"] c, of "px p" "px q"] by (simp add: finalPos_def Let_def)
  show "\<bar>py (finalPos time u p q) - py q\<bar> \<le> 0.15 + \<bar>1 - u\<bar> * (\<bar>py p - py q\<bar> + 0.15)"
    using mix_near[OF co[of "time + py p"] c, of "py p" "py q"] by (simp add: finalPos_def Let_def)
  show "\<bar>pz (finalPos time u p q) - pz q\<bar> \<le> 0.15 + \<bar>1 - u\<bar> * (\<bar>pz p - pz q\<bar> + 0.15)"
    using mix_near[OF s[of "time * 1.5 + pz p"] c, of "pz p" "pz q"] by (simp add: finalPos_def Let_def)
qed

lemma getDistance_coordinates:
  assumes "coordinatesWithin r p q"
  shows "getDistance p q < r * sqrt 3"
proof -
  have sq: "a\<^sup>2 < r\<^sup>2" if "\<bar>a\<bar> < r" for a :: real
    using that by (metis abs_ge_zero power2_abs power_strict_mono zero_less_numeral)
  have r: "0 < r" using assms by (auto simp add: coordinatesWithin_def)
  from assms have "(px p - px q)\<^sup>2 + (py p - py q)\<^sup>2 + (pz p - pz q)\<^sup>2 < 3 * r\<^sup>2"
    using sq[of "px p - px q"] sq[of "py p - py q"] sq[of "pz p - pz q"]
    by (simp add: coordinatesWithin_def)
  then have "getDistance p q < sqrt (3 * r\<^sup>2)"
    unfolding getDistance_def by (rule real_sqrt_less_mono)
  also have "\<dots> = r * sqrt 3" using r by (simp add: real_sqrt_mult)
  finally show ?thesis .
qed

lemma foliage_near:
  assumes "sceneState (w_app w) = FORMED" and "0 < eps"
    and "i < length (drawnPoints (foliagePool (w_pools w)))"
  shows "\<exists>T. \<forall>deltas. T \<le> sum_list deltas \<longrightarrow>
           coordinatesWithin (0.15 + eps)
             (drawnPoints (foliagePool (w_pools (renderFrames deltas w))) ! i)
             (targetPositions (foliagePool (w_pools (renderFrames deltas w))) ! i)"
proof -
  define p where "p = positions (foliagePool (w_pools w)) ! i"
  define q where "q = targetPositions (foliagePool (w_pools w)) ! i"
  define M where "M = \<bar>px p - px q\<bar> + \<bar>py p - py q\<bar> + \<bar>pz p - pz q\<bar> + 0.15"
  define k where "k = min (1 / 2) (eps / (2 * M))"
  have M: "0 < M" by (simp add: M_def add_nonneg_pos)
  then have k: "0 < k" "k \<le> 1 / 2" "k * M < eps"
  proof -
    show "0 < k" using M assms(2) by (simp add: k_def)
    show "k \<le> 1 / 2" by (simp add: k_def)
    have "k * M \<le> eps / (2 * M) * M" using M by (intro mult_right_mono) (simp_all add: k_def)
    also have "\<dots> = eps / 2" using M by simp
    also have "\<dots> < eps" using assms(2) by simp
    finally show "k * M < eps" .
  qed
  from exp_decay_below[OF k(1), of "1.5" "1 - uProgress (foliagePool (w_pools w))"] obtain T
    where T: "\<And>s. T \<le> s \<Longrightarrow> \<bar>exp (- 1.5 * s) * (1 - uProgress (foliagePool (w_pools w)))\<bar> < k"
    by auto
  have "coordinatesWithin (0.15 + eps)
          (drawnPoints (foliagePool (w_pools (renderFrames deltas w))) ! i)
          (targetPositions (foliagePool (w_pools (renderFrames deltas w))) ! i)"
    if s: "T \<le> sum_list deltas" for deltas
  proof -
    define f where "f = foliagePool (w_pools (renderFrames deltas w))"
    have u: "\<bar>1 - uProgress f\<bar> < k"
      using T[OF s] by (simp add: f_def foliage_run[OF assms(1)])
    then have half: "\<bar>1 - uProgress f\<bar> \<le> 1 / 2" using k(2) by linarith
    have len: "i < length (drawnPoints f)"
      using assms(3) by (simp add: f_def drawnPoints_def foliage_attributes)
    have d: "drawnPoints f ! i = finalPos (uTime f) (uProgress f) p q"
      using drawnPoints_nth[OF len] by (simp add: f_def p_def q_def foliage_attributes)
    have t: "targetPositions f ! i = q"
      by (simp add: f_def q_def foliage_attributes)
    have bound: "0.15 + \<bar>1 - uProgress f\<bar> * (a + 0.15) < 0.15 + eps"
      if "0 \<le> a" "a + 0.15 \<le> M" for a
    proof -
      have "\<bar>1 - uProgress f\<bar> * (a + 0.15) \<le> k * M"
        using u that by (intro mult_mono) simp_all
      with k(3) show ?thesis by linarith
    qed
    have "\<bar>px (finalPos (uTime f) (uProgress f) p q) - px q\<bar> < 0.15 + eps"
      using finalPos_near(1)[OF half, of "uTime f" p q] bound[of "\<bar>px p - px q\<bar>"]
      by (simp add: M_def)
    moreover have "\<bar>py (finalPos (uTime f) (uProgress f) p q) - py q\<bar> < 0.15 + eps"
      using finalPos_near(2)[OF half, of "uTime f" p q] bound[of "\<bar>py p - py q\<bar>"]
      by (simp add: M_def)
    moreover have "\<bar>pz (finalPos (uTime f) (uProgress f) p q) - pz q\<bar> < 0.15 + eps"
      using finalPos_near(3)[OF half, of "uTime f" p q] bound[of "\<bar>pz p - pz q\<bar>"]
      by (simp add: M_def)
    ultimately show ?thesis
      unfolding f_def [symmetric] d t by (simp add: coordinatesWithin_def)
  qed
  then show ?thesis by blast
qed

lemma mkFoliage_positions: "positions (mkFoliage n ball td) = inSphere n 25 ball"
  by (simp add: mkFoliage_def inSphere_def Let_def cong: map_cong)

lemma demo_foliage:
  "length (positions (foliagePool (w_pools demoWorld))) = 6000"
  "length (targetPositions (foliagePool (w_pools demoWorld))) = 6000"
  "positions (foliagePool (w_pools demoWorld)) ! 0 = pt (pi / 2) 0 (pi / 2)"
  "targetPositions (foliagePool (w_pools demoWorld)) ! 0 = pt 2.25 0 0"
  "uTime (foliagePool (w_pools demoWorld)) = 0"
  by (simp_all add: demoWorld_def mkPools_def demoRandom_def mkFoliage_positions inSphere_def
      mkFoliage_def getTreePosition_def TREE_height_def TREE_radius_def pt_def Let_def)

lemma demo_element:
  "mkElement demoDraws = \<lparr>chaosPos = pt 0 0 0, targetPos = pt 4.275 0 0, currentPos = pt 0 0 0\<rparr>"
  by (simp add: mkElement_def demoDraws_def TREE_height_def TREE_radius_def pt_def Let_def)

lemma demo_elements:
  "length (elements (w_pools demoWorld)) = 80"
  "i < 80 \<Longrightarrow> elements (w_pools demoWorld) ! i = mkElement demoDraws"
  by (simp_all add: demoWorld_def mkPools_def demoRandom_def)

lemma demo_ornaments:
  "length (ornaments (w_pools demoWorld)) = 100"
  "ornaments (w_pools demoWorld) ! 0
   = \<lparr>chaosPos = pt 0 0 0, targetPos = pt 5 0 0, currentPos = pt 0 0 0, weight = 1.4,
      morphProgress = 0\<rparr>"
  by (simp_all add: demoWorld_def mkPools_def demoRandom_def mkOrnament_def demoDraws_def
      draws.defs ornamentDraws.defs TREE_height_def TREE_radius_def pt_def Let_def)

lemma mirrored_element:
  "distanceToTarget (elements (w_pools (setSceneState FORMED demoWorld)) ! 0) = 4.275"
  "distanceToTarget
     (elements (w_pools (renderFrames [4 / 3] (setSceneState FORMED demoWorld))) ! 0) = 4.275"
  "elements (w_pools (renderFrames [4 / 3, 4 / 3] (setSceneState FORMED demoWorld))) ! 0
   = elements (w_pools (setSceneState FORMED demoWorld)) ! 0"
proof -
  show "distanceToTarget (elements (w_pools (setSceneState FORMED demoWorld)) ! 0) = 4.275"
    using getDistance_axis[of 0 0 0 "4.275"]
    by (simp add: distanceToTarget_def formed_demo demo_elements demo_element)
  have s1: "elements (w_pools (renderFrames [4 / 3] (setSceneState FORMED demoWorld))) ! 0
      = \<lparr>chaosPos = pt 0 0 0, targetPos = pt 4.275 0 0, currentPos = pt 8.55 0 0\<rparr>"
    by (simp add: renderFrame_pools formed_demo demo_elements demo_element elementFrame_def
        lerpV_def pt_def)
  show "distanceToTarget
     (elements (w_pools (renderFrames [4 / 3] (setSceneState FORMED demoWorld))) ! 0) = 4.275"
    unfolding s1 using getDistance_axis[of "8.55" 0 0 "4.275"]
    by (simp add: distanceToTarget_def)
  show "elements (w_pools (renderFrames [4 / 3, 4 / 3] (setSceneState FORMED demoWorld))) ! 0
     = elements (w_pools (setSceneState FORMED demoWorld)) ! 0"
    by (simp add: renderFrame_pools formed_demo demo_elements demo_element elementFrame_def
        lerpV_def pt_def)
qed

lemma mirrored_ornament:
  "weight (ornaments (w_pools (setSceneState FORMED demoWorld)) ! 0) = 1.4"
  "distanceToTarget (ornaments (w_pools (setSceneState FORMED demoWorld)) ! 0) = 5"
  "distanceToTarget
     (ornaments (w_pools (renderFrames [25 / 14] (setSceneState FORMED demoWorld))) ! 0) = 5"
  "currentPos
     (ornaments (w_pools (renderFrames [25 / 14, 25 / 14] (setSceneState FORMED demoWorld))) ! 0)
   = currentPos (ornaments (w_pools (setSceneState FORMED demoWorld)) ! 0)"
proof -
  show "weight (ornaments (w_pools (setSceneState FORMED demoWorld)) ! 0) = 1.4"
    by (simp add: formed_demo demo_ornaments)
  show "distanceToTarget (ornaments (w_pools (setSceneState FORMED demoWorld)) ! 0) = 5"
    using getDistance_axis[of 0 0 0 5]
    by (simp add: distanceToTarget_def formed_demo demo_ornaments)
  have s1: "currentPos
        (ornaments (w_pools (renderFrames [25 / 14] (setSceneState FORMED demoWorld))) ! 0)
      = pt 10 0 0"
    "targetPos
        (ornaments (w_pools (renderFrames [25 / 14] (setSceneState FORMED demoWorld))) ! 0)
      = pt 5 0 0"
    by (simp_all add: renderFrame_pools formed_demo demo_ornaments ornamentFrame_def
        lerpV_def pt_def Let_def)
  show "distanceToTarget
     (ornaments (w_pools (renderFrames [25 / 14] (setSceneState FORMED demoWorld))) ! 0) = 5"
    unfolding distanceToTarget_def s1 using getDistance_axis[of 10 0 0 5] by simp
  show "currentPos
     (ornaments (w_pools (renderFrames [25 / 14, 25 / 14] (setSceneState FORMED demoWorld))) ! 0)
   = currentPos (ornaments (w_pools (setSceneState FORMED demoWorld)) ! 0)"
    by (simp add: renderFrame_pools formed_demo demo_ornaments ornamentFrame_def
        lerpV_def pt_def Let_def)
qed

lemma damp_fixed: "damp 1 1 lam d = 1"
  by (simp add: damp_def lerp_def)

lemma getDistance_diagonal:
  "getDistance (pt (a + r) (b + r) (c + r)) (pt a b c) = \<bar>r\<bar> * sqrt 3"
proof -
  have "r\<^sup>2 + r\<^sup>2 + r\<^sup>2 = r\<^sup>2 * 3" by simp
  then have "sqrt (r\<^sup>2 + r\<^sup>2 + r\<^sup>2) = \<bar>r\<bar> * sqrt 3"
    by (simp only: real_sqrt_mult real_sqrt_abs)
  then show ?thesis by (simp add: getDistance_def pt_def)
qed

lemma finalPos_settled:
  assumes "sin (time * 1.5 + pi / 2) = 1" "cos time = 1"
  shows "finalPos time 1 (pt (pi / 2) 0 (pi / 2)) (pt a b c) = pt (a + 0.15) (b + 0.15) (c + 0.15)"
  using assms by (simp add: finalPos_def cubicInOut_def mix_def pt_def Let_def)

lemma settled_world:
  "sceneState (w_app settledWorld) = FORMED"
  "w_elapsedTime settledWorld = 0"
  "foliagePool (w_pools settledWorld) = (foliagePool (w_pools demoWorld))\<lparr>uProgress := 1\<rparr>"
  by (simp_all add: settledWorld_def demoWorld_def)

lemma settled_frames:
  "sceneState (w_app settledWorld) = FORMED"
  "uProgress (foliagePool (w_pools settledWorld)) = 1"
  "uProgress (foliagePool (w_pools (renderFrames [4 * pi] settledWorld))) = 1"
  "uProgress (foliagePool (w_pools (renderFrames [4 * pi, 4 * pi] settledWorld))) = 1"
  by (simp_all add: settled_world renderFrame_pools foliageFrame_def damp_fixed)

lemma settled_clock:
  "uTime (foliagePool (w_pools settledWorld)) = 0"
  "uTime (foliagePool (w_pools (renderFrames [4 * pi] settledWorld))) = 4 * pi"
  "uTime (foliagePool (w_pools (renderFrames [4 * pi, 4 * pi] settledWorld))) = 8 * pi"
  by (simp_all add: settled_world renderFrame_pools demo_foliage)

lemma jitter_turns:
  "sin (0 * 1.5 + pi / 2) = (1::real)"
  "sin (4 * pi * 1.5 + pi / 2) = 1" "cos (4 * pi) = 1"
  "sin (8 * pi * 1.5 + pi / 2) = 1" "cos (8 * pi) = 1"
proof -
  have a: "4 * pi * 1.5 + pi / 2 = 6 * pi + pi / 2" "8 * pi * 1.5 + pi / 2 = 12 * pi + pi / 2"
    by simp_all
  show "sin (0 * 1.5 + pi / 2) = (1::real)" by simp
  show "sin (4 * pi * 1.5 + pi / 2) = 1" unfolding a sin_add by simp
  show "sin (8 * pi * 1.5 + pi / 2) = 1" unfolding a sin_add by simp
  show "cos (4 * pi) = 1" "cos (8 * pi) = 1" by simp_all
qed

lemma settled_drawn:
  "getDistance (drawnPoints (foliagePool (w_pools settledWorld)) ! 0)
     (targetPositions (foliagePool (w_pools settledWorld)) ! 0) = 0.15 * sqrt 3"
  "getDistance (drawnPoints (foliagePool (w_pools (renderFrames [4 * pi] settledWorld))) ! 0)
     (targetPositions (foliagePool (w_pools (renderFrames [4 * pi] settledWorld))) ! 0)
   = 0.15 * sqrt 3"
  "getDistance
     (drawnPoints (foliagePool (w_pools (renderFrames [4 * pi, 4 * pi] settledWorld))) ! 0)
     (targetPositions (foliagePool (w_pools (renderFrames [4 * pi, 4 * pi] settledWorld))) ! 0)
   = 0.15 * sqrt 3"
proof -
  have d: "getDistance (drawnPoints f ! 0) (targetPositions f ! 0) = 0.15 * sqrt 3"
    if "positions f = positions (foliagePool (w_pools demoWorld))"
      "targetPositions f = targetPositions (foliagePool (w_pools demoWorld))"
      "uProgress f = 1" "sin (uTime f * 1.5 + pi / 2) = 1" "cos (uTime f) = 1" for f
  proof -
    have "drawnPoints f ! 0 = finalPos (uTime f) 1 (pt (pi / 2) 0 (pi / 2)) (pt 2.25 0 0)"
      using that(1,2,3) by (simp add: drawnPoints_def demo_foliage)
    also have "\<dots> = pt (2.25 + 0.15) (0 + 0.15) (0 + 0.15)"
      by (rule finalPos_settled[OF that(4,5)])
    finally have "getDistance (drawnPoints f ! 0) (targetPositions f ! 0)
        = getDistance (pt (2.25 + 0.15) (0 + 0.15) (0 + 0.15)) (pt 2.25 0 0)"
      unfolding that(2) demo_foliage by (rule arg_cong)
    also have "\<dots> = \<bar>0.15\<bar> * sqrt 3" by (rule getDistance_diagonal)
    finally show ?thesis by simp
  qed
  show "getDistance (drawnPoints (foliagePool (w_pools settledWorld)) ! 0)
     (targetPositions (foliagePool (w_pools settledWorld)) ! 0) = 0.15 * sqrt 3"
    by (rule d) (simp_all add: settled_world demo_foliage)
  show "getDistance (drawnPoints (foliagePool (w_pools (renderFrames [4 * pi] settledWorld))) ! 0)
     (targetPositions (foliagePool (w_pools (renderFrames [4 * pi] settledWorld))) ! 0)
   = 0.15 * sqrt 3"
  proof (rule d)
    show "sin (uTime (foliagePool (w_pools (renderFrames [4 * pi] settledWorld))) * 1.5 + pi / 2) = 1"
      "cos (uTime (foliagePool (w_pools (renderFrames [4 * pi] settledWorld)))) = 1"
      unfolding settled_clock by (rule jitter_turns)+
  qed (simp_all add: settled_world renderFrame_pools foliageFrame_def damp_fixed)
  show "getDistance
     (drawnPoints (foliagePool (w_pools (renderFrames [4 * pi, 4 * pi] settledWorld))) ! 0)
     (targetPositions (foliagePool (w_pools (renderFrames [4 * pi, 4 * pi] settledWorld))) ! 0)
   = 0.15 * sqrt 3"
  proof (rule d)
    show "sin (uTime (foliagePool (w_pools (renderFrames [4 * pi, 4 * pi] settledWorld))) * 1.5
            + pi / 2) = 1"
      "cos (uTime (foliagePool (w_pools (renderFrames [4 * pi, 4 * pi] settledWorld)))) = 1"
      unfolding settled_clock by (rule jitter_turns)+
  qed (simp_all add: settled_world renderFrame_pools foliageFrame_def damp_fixed)
qed

text \<open>
  Claim C5, as the code has it. Let the mode be FORMED and let every frame's \<open>delta\<close> lie in
  \<open>[0, dmax]\<close>. For a light with \<open>dmax * 2 < 2\<close>, an element with \<open>dmax * 1.5 < 2\<close> and an
  ornament of positive weight with \<open>dmax * 0.8 * weight < 2\<close>, and for every \<open>eps > 0\<close>, there
  is a time \<open>T\<close> such that after any such frames that add up to at least \<open>T\<close> the distance
  from the current position to the target position is below \<open>eps\<close>. A point of the foliage
  has no current position: the shader draws it from the damped progress and the clock, with
  a jitter of 0.15 in each coordinate. After enough elapsed time, whatever the frame
  durations are, the progress is within \<open>eps\<close> of 1 and the distance from the drawn point to
  the target is below \<open>0.15 * sqrt 3 + eps\<close>.
\<close>

theorem formed_mode_converges:
  assumes "sceneState (w_app w) = FORMED" and "0 < eps"
  shows "(\<forall>i < length (lights (w_pools w)). dmax * 2 < 2 \<longrightarrow>
           (\<exists>T. \<forall>deltas. list_all (\<lambda>d. 0 \<le> d \<and> d \<le> dmax) deltas \<and> T \<le> sum_list deltas
                 \<longrightarrow> distanceToTarget (lights (w_pools (renderFrames deltas w)) ! i) < eps))
         \<and> (\<forall>i < length (elements (w_pools w)). dmax * 1.5 < 2 \<longrightarrow>
           (\<exists>T. \<forall>deltas. list_all (\<lambda>d. 0 \<le> d \<and> d \<le> dmax) deltas \<and> T \<le> sum_list deltas
                 \<longrightarrow> distanceToTarget (elements (w_pools (renderFrames deltas w)) ! i) < eps))
         \<and> (\<forall>i < length (ornaments (w_pools w)).
              0 < weight (ornaments (w_pools w) ! i)
              \<and> dmax * (0.8 * weight (ornaments (w_pools w) ! i)) < 2 \<longrightarrow>
           (\<exists>T. \<forall>deltas. list_all (\<lambda>d. 0 \<le> d \<and> d \<le> dmax) deltas \<and> T \<le> sum_list deltas
                 \<longrightarrow> distanceToTarget (ornaments (w_pools (renderFrames deltas w)) ! i) < eps))
         \<and> (\<exists>T. \<forall>deltas. T \<le> sum_list deltas
                 \<longrightarrow> \<bar>1 - uProgress (foliagePool (w_pools (renderFrames deltas w)))\<bar> < eps)
         \<and> (\<forall>i < length (drawnPoints (foliagePool (w_pools w))).
           (\<exists>T. \<forall>deltas. T \<le> sum_list deltas
                 \<longrightarrow> getDistance
                       (drawnPoints (foliagePool (w_pools (renderFrames deltas w))) ! i)
                       (targetPositions (foliagePool (w_pools (renderFrames deltas w))) ! i)
                     < 0.15 * sqrt 3 + eps))"
proof -
  have L: "\<exists>T. \<forall>deltas. list_all (\<lambda>d. 0 \<le> d \<and> d \<le> dmax) deltas \<and> T \<le> sum_list deltas
                 \<longrightarrow> distanceToTarget (lights (w_pools (renderFrames deltas w)) ! i) < eps"
    if "i < length (lights (w_pools w))" "dmax * 2 < 2" for i
  proof -
    have "distanceToTarget (lights (w_pools (renderFrames deltas w)) ! i)
        = getDistance (foldl (\<lambda>p d. lerpV p (targetPos (lights (w_pools w) ! i)) (d * 2))
                         (currentPos (lights (w_pools w) ! i)) deltas)
            (targetPos (lights (w_pools w) ! i))" for deltas
      using that(1) assms(1) by (simp add: distanceToTarget_def renderFrames_pools light_run)
    then show ?thesis
      using approach_converges[OF assms(2) _ that(2)] by simp
  qed
  have E: "\<exists>T. \<forall>deltas. list_all (\<lambda>d. 0 \<le> d \<and> d \<le> dmax) deltas \<and> T \<le> sum_list deltas
                 \<longrightarrow> distanceToTarget (elements (w_pools (renderFrames deltas w)) ! i) < eps"
    if "i < length (elements (w_pools w))" "dmax * 1.5 < 2" for i
  proof -
    have "distanceToTarget (elements (w_pools (renderFrames deltas w)) ! i)
        = getDistance (foldl (\<lambda>p d. lerpV p (targetPos (elements (w_pools w) ! i)) (d * 1.5))
                         (currentPos (elements (w_pools w) ! i)) deltas)
            (targetPos (elements (w_pools w) ! i))" for deltas
      using that(1) assms(1) by (simp add: distanceToTarget_def renderFrames_pools element_run)
    then show ?thesis
      using approach_converges[OF assms(2) _ that(2)] by simp
  qed
  have O: "\<exists>T. \<forall>deltas. list_all (\<lambda>d. 0 \<le> d \<and> d \<le> dmax) deltas \<and> T \<le> sum_list deltas
                 \<longrightarrow> distanceToTarget (ornaments (w_pools (renderFrames deltas w)) ! i) < eps"
    if "i < length (ornaments (w_pools w))" "0 < weight (ornaments (w_pools w) ! i)"
      "dmax * (0.8 * weight (ornaments (w_pools w) ! i)) < 2" for i
  proof -
    have "distanceToTarget (ornaments (w_pools (renderFrames deltas w)) ! i)
        = getDistance (foldl (\<lambda>p d. lerpV p (targetPos (ornaments (w_pools w) ! i))
                                   (d * (0.8 * weight (ornaments (w_pools w) ! i))))
                         (currentPos (ornaments (w_pools w) ! i)) deltas)
            (targetPos (ornaments (w_pools w) ! i))" for deltas
      using that(1) assms(1) by (simp add: distanceToTarget_def renderFrames_pools ornament_run)
    moreover have "0 < 0.8 * weight (ornaments (w_pools w) ! i)"
      using that(2) by simp
    ultimately show ?thesis
      using approach_converges[OF assms(2) _ that(3)] by simp
  qed
  have F: "\<exists>T. \<forall>deltas. T \<le> sum_list deltas
                 \<longrightarrow> \<bar>1 - uProgress (foliagePool (w_pools (renderFrames deltas w)))\<bar> < eps"
  proof -
    from exp_decay_below[OF assms(2), of "1.5" "1 - uProgress (foliagePool (w_pools w))"]
    obtain T
      where "\<And>s. T \<le> s \<Longrightarrow> \<bar>exp (- 1.5 * s) * (1 - uProgress (foliagePool (w_pools w)))\<bar> < eps"
      by auto
    then have "\<bar>1 - uProgress (foliagePool (w_pools (renderFrames deltas w)))\<bar> < eps"
      if "T \<le> sum_list deltas" for deltas
      using that by (simp add: foliage_run[OF assms(1)])
    then show ?thesis by blast
  qed
  have D: "\<exists>T. \<forall>deltas. T \<le> sum_list deltas
                 \<longrightarrow> getDistance
                       (drawnPoints (foliagePool (w_pools (renderFrames deltas w))) ! i)
                       (targetPositions (foliagePool (w_pools (renderFrames deltas w))) ! i)
                     < 0.15 * sqrt 3 + eps"
    if i: "i < length (drawnPoints (foliagePool (w_pools w)))" for i
  proof -
    have e: "0 < eps / sqrt 3" using assms(2) by simp
    from foliage_near[OF assms(1) e i] obtain T where
      T: "\<And>deltas. T \<le> sum_list deltas \<Longrightarrow>
           coordinatesWithin (0.15 + eps / sqrt 3)
             (drawnPoints (foliagePool (w_pools (renderFrames deltas w))) ! i)
             (targetPositions (foliagePool (w_pools (renderFrames deltas w))) ! i)"
      by blast
    have "(0.15 + eps / sqrt 3) * sqrt 3 = 0.15 * sqrt 3 + eps"
      by (simp add: algebra_simps)
    then have "getDistance
                 (drawnPoints (foliagePool (w_pools (renderFrames deltas w))) ! i)
                 (targetPositions (foliagePool (w_pools (renderFrames deltas w))) ! i)
               < 0.15 * sqrt 3 + eps"
      if "T \<le> sum_list deltas" for deltas
      using getDistance_coordinates[OF T[OF that]] by simp
    then show ?thesis by blast
  qed
  from L E O F D show ?thesis by blast
qed

text \<open>Frames of at most a thirtieth of a second bring the first light of the demonstration
  world within a hundredth of its target, and its first foliage point within
  \<open>0.15 * sqrt 3\<close> and a hundredth.\<close>

theorem formed_mode_converges_example:
  "sceneState (w_app (setSceneState FORMED demoWorld)) = FORMED
   \<and> 0 < length (lights (w_pools (setSceneState FORMED demoWorld)))
   \<and> 0 < length (drawnPoints (foliagePool (w_pools (setSceneState FORMED demoWorld))))
   \<and> (\<exists>T. \<forall>deltas. list_all (\<lambda>d. 0 \<le> d \<and> d \<le> 1 / 30) deltas \<and> T \<le> sum_list deltas
         \<longrightarrow> distanceToTarget
               (lights (w_pools (renderFrames deltas (setSceneState FORMED demoWorld))) ! 0)
             < 1 / 100)
   \<and> (\<exists>T. \<forall>deltas. T \<le> sum_list deltas
         \<longrightarrow> \<bar>1 - uProgress (foliagePool
                   (w_pools (renderFrames deltas (setSceneState FORMED demoWorld))))\<bar> < 1 / 100)
   \<and> (\<exists>T. \<forall>deltas. T \<le> sum_list deltas
         \<longrightarrow> getDistance
               (drawnPoints (foliagePool
                  (w_pools (renderFrames deltas (setSceneState FORMED demoWorld)))) ! 0)
               (targetPositions (foliagePool
                  (w_pools (renderFrames deltas (setSceneState FORMED demoWorld)))) ! 0)
             < 0.15 * sqrt 3 + 1 / 100)"
proof -
  have n: "0 < length (lights (w_pools (setSceneState FORMED demoWorld)))"
    by (simp add: formed_demo demo_lights)
  have m: "0 < length (drawnPoints (foliagePool (w_pools (setSceneState FORMED demoWorld))))"
    by (simp add: formed_demo demo_foliage drawnPoints_def)
  from formed_mode_converges[OF formed_demo(1), of "1 / 100" "1 / 30"] n m
  show ?thesis by (simp add: formed_demo(1))
qed

text \<open>
  With frames of one second a light's interpolation factor is 2: each frame mirrors the
  light through its target. After two frames the light is where it was, at the distance
  4.8 it started from, and the mode is still FORMED; so the distance stays 4.8 for ever.
  The same holds for an element with frames of \<open>4 / 3\<close> seconds and for the ornament of
  weight 1.4 with frames of \<open>25 / 14\<close> seconds: their factors \<open>delta * 1.5\<close> and
  \<open>delta * 0.8 * weight\<close> are 2.
  With the progress of the foliage at 1, where a FORMED frame leaves it, the shader draws
  the first point of the foliage at the distance \<open>0.15 * sqrt 3\<close> from its target when the
  clock is at 0, and again after every frame of \<open>4 * pi\<close> seconds: the three jitter
  components are at their maximum together.
\<close>

theorem one_second_frames_never_converge:
  "sceneState (w_app (setSceneState FORMED demoWorld)) = FORMED
   \<and> distanceToTarget (lights (w_pools (setSceneState FORMED demoWorld)) ! 0) = 4.8
   \<and> distanceToTarget (lights (w_pools (renderFrames [1] (setSceneState FORMED demoWorld))) ! 0) = 4.8
   \<and> lights (w_pools (renderFrames [1, 1] (setSceneState FORMED demoWorld))) ! 0
     = lights (w_pools (setSceneState FORMED demoWorld)) ! 0
   \<and> sceneState (w_app (renderFrames [1, 1] (setSceneState FORMED demoWorld))) = FORMED
   \<and> distanceToTarget (elements (w_pools (setSceneState FORMED demoWorld)) ! 0) = 4.275
   \<and> distanceToTarget
       (elements (w_pools (renderFrames [4 / 3] (setSceneState FORMED demoWorld))) ! 0) = 4.275
   \<and> elements (w_pools (renderFrames [4 / 3, 4 / 3] (setSceneState FORMED demoWorld))) ! 0
     = elements (w_pools (setSceneState FORMED demoWorld)) ! 0
   \<and> weight (ornaments (w_pools (setSceneState FORMED demoWorld)) ! 0) = 1.4
   \<and> distanceToTarget (ornaments (w_pools (setSceneState FORMED demoWorld)) ! 0) = 5
   \<and> distanceToTarget
       (ornaments (w_pools (renderFrames [25 / 14] (setSceneState FORMED demoWorld))) ! 0) = 5
   \<and> currentPos
       (ornaments (w_pools (renderFrames [25 / 14, 25 / 14] (setSceneState FORMED demoWorld))) ! 0)
     = currentPos (ornaments (w_pools (setSceneState FORMED demoWorld)) ! 0)
   \<and> sceneState (w_app settledWorld) = FORMED
   \<and> uProgress (foliagePool (w_pools settledWorld)) = 1
   \<and> getDistance (drawnPoints (foliagePool (w_pools settledWorld)) ! 0)
       (targetPositions (foliagePool (w_pools settledWorld)) ! 0) = 0.15 * sqrt 3
   \<and> uProgress (foliagePool (w_pools (renderFrames [4 * pi] settledWorld))) = 1
   \<and> getDistance (drawnPoints (foliagePool (w_pools (renderFrames [4 * pi] settledWorld))) ! 0)
       (targetPositions (foliagePool (w_pools (renderFrames [4 * pi] settledWorld))) ! 0)
     = 0.15 * sqrt 3
   \<and> uProgress (foliagePool (w_pools (renderFrames [4 * pi, 4 * pi] settledWorld))) = 1
   \<and> getDistance
       (drawnPoints (foliagePool (w_pools (renderFrames [4 * pi, 4 * pi] settledWorld))) ! 0)
       (targetPositions (foliagePool (w_pools (renderFrames [4 * pi, 4 * pi] settledWorld))) ! 0)
     = 0.15 * sqrt 3"
proof -
  have a: "distanceToTarget (lights (w_pools (setSceneState FORMED demoWorld)) ! 0) = 4.8"
    using getDistance_axis[of 0 0 0 "4.8"]
    by (simp add: distanceToTarget_def formed_demo demo_lights demo_light)
  have s1: "lights (w_pools (renderFrames [1] (setSceneState FORMED demoWorld))) ! 0
      = \<lparr>chaosPos = pt 0 0 0, targetPos = pt 4.8 0 0, currentPos = pt 9.6 0 0\<rparr>"
    by (simp add: renderFrame_pools formed_demo demo_lights demo_light lightFrame_def
        lerpV_def pt_def)
  have b: "distanceToTarget (lights (w_pools (renderFrames [1] (setSceneState FORMED demoWorld))) ! 0) = 4.8"
    unfolding s1 using getDistance_axis[of "9.6" 0 0 "4.8"]
    by (simp add: distanceToTarget_def)
  have c: "lights (w_pools (renderFrames [1, 1] (setSceneState FORMED demoWorld))) ! 0
     = lights (w_pools (setSceneState FORMED demoWorld)) ! 0"
    by (simp add: renderFrame_pools formed_demo demo_lights demo_light lightFrame_def
        lerpV_def pt_def)
  have l: "sceneState (w_app (renderFrames [1, 1] (setSceneState FORMED demoWorld))) = FORMED"
    by (simp add: formed_demo renderFrame_pools)
  note f = settled_frames settled_drawn
  show ?thesis using a b c l f mirrored_element mirrored_ornament by simp
qed

section \<open>Properties of the scene object pool\<close>

lemma radial_polar: "sqrt ((c * cos t)\<^sup>2 + (c * sin t)\<^sup>2) = \<bar>c\<bar>"
proof -
  have "(c * cos t)\<^sup>2 + (c * sin t)\<^sup>2 = c\<^sup>2 * ((cos t)\<^sup>2 + (sin t)\<^sup>2)"
    by (simp only: power_mult_distrib distrib_left)
  then show ?thesis by simp
qed

lemma chaos_in_cube:
  assumes "unitDraws d" "0 < h"
  shows "inCube h \<lparr>px = (uX d - 0.5) * (2 * h), py = (uY d - 0.5) * (2 * h), pz = (uZ d - 0.5) * (2 * h)\<rparr>"
proof -
  have "- h \<le> (u - 0.5) * (2 * h) \<and> (u - 0.5) * (2 * h) < h" if "unitDraw u" for u
  proof -
    have eq: "(u - 0.5) * (2 * h) = (2 * u - 1) * h" by (simp add: algebra_simps)
    have lo: "- 1 * h \<le> (2 * u - 1) * h"
      using that assms(2) by (intro mult_right_mono) (simp_all add: unitDraw_def)
    have hi: "(2 * u - 1) * h < 1 * h"
      using that assms(2) by (intro mult_strict_right_mono) (simp_all add: unitDraw_def)
    show ?thesis unfolding eq using lo hi by simp
  qed
  with assms(1) show ?thesis by (simp add: inCube_def unitDraws_def)
qed

lemma mkOrnament_bounds:
  assumes "unitDraws d"
  shows "inCube 35 (chaosPos (mkOrnament d))" "currentPos (mkOrnament d) = chaosPos (mkOrnament d)"
    "radial (targetPos (mkOrnament d)) = coneRadius (py (targetPos (mkOrnament d))) + 0.5"
    "- 11 \<le> py (targetPos (mkOrnament d))" "py (targetPos (mkOrnament d)) < 11"
proof -
  from assms have u: "0 \<le> uH d" "uH d < 1" by (simp_all add: unitDraws_def unitDraw_def)
  show "inCube 35 (chaosPos (mkOrnament d))"
    using chaos_in_cube[OF assms, of 35] by (simp add: mkOrnament_def Let_def)
  show "currentPos (mkOrnament d) = chaosPos (mkOrnament d)"
    by (simp add: mkOrnament_def Let_def)
  have "\<bar>9 * (1 - uH d) + 0.5\<bar> = 9 * (1 - uH d) + 0.5" using u by simp
  then show "radial (targetPos (mkOrnament d)) = coneRadius (py (targetPos (mkOrnament d))) + 0.5"
    using radial_polar[of "9 * (1 - uH d) + 0.5" "uTheta d * pi * 2"]
    by (simp add: mkOrnament_def Let_def radial_def coneRadius_def TREE_height_def TREE_radius_def)
  show "- 11 \<le> py (targetPos (mkOrnament d))" "py (targetPos (mkOrnament d)) < 11"
    using u by (simp_all add: mkOrnament_def Let_def TREE_height_def)
qed

lemma mkLight_bounds:
  assumes "unitDraws d"
  shows "inCube 30 (chaosPos (mkLight d))" "currentPos (mkLight d) = chaosPos (mkLight d)"
    "radial (targetPos (mkLight d)) = coneRadius (py (targetPos (mkLight d))) + 0.3"
    "- 11 \<le> py (targetPos (mkLight d))" "py (targetPos (mkLight d)) < 11"
proof -
  from assms have u: "0 \<le> uH d" "uH d < 1" by (simp_all add: unitDraws_def unitDraw_def)
  show "inCube 30 (chaosPos (mkLight d))"
    using chaos_in_cube[OF assms, of 30] by (simp add: mkLight_def Let_def)
  show "currentPos (mkLight d) = chaosPos (mkLight d)"
    by (simp add: mkLight_def Let_def)
  have "\<bar>9 * (1 - uH d) + 0.3\<bar> = 9 * (1 - uH d) + 0.3" using u by simp
  then show "radial (targetPos (mkLight d)) = coneRadius (py (targetPos (mkLight d))) + 0.3"
    using radial_polar[of "9 * (1 - uH d) + 0.3" "uTheta d * pi * 2"]
    by (simp add: mkLight_def Let_def radial_def coneRadius_def TREE_height_def TREE_radius_def)
  show "- 11 \<le> py (targetPos (mkLight d))" "py (targetPos (mkLight d)) < 11"
    using u by (simp_all add: mkLight_def Let_def TREE_height_def)
qed

lemma mkElement_bounds:
  assumes "unitDraws d"
  shows "inCube 30 (chaosPos (mkElement d))" "currentPos (mkElement d) = chaosPos (mkElement d)"
    "radial (targetPos (mkElement d)) = coneRadius (py (targetPos (mkElement d))) * 0.95"
    "radial (targetPos (mkElement d)) \<le> coneRadius (py (targetPos (mkElement d)))"
    "- 11 \<le> py (targetPos (mkElement d))" "py (targetPos (mkElement d)) < 11"
    "0 \<le> coneRadius (py (targetPos (mkElement d)))"
proof -
  from assms have u: "0 \<le> uH d" "uH d < 1" by (simp_all add: unitDraws_def unitDraw_def)
  show "inCube 30 (chaosPos (mkElement d))"
    using chaos_in_cube[OF assms, of 30] by (simp add: mkElement_def Let_def)
  show "currentPos (mkElement d) = chaosPos (mkElement d)"
    by (simp add: mkElement_def Let_def)
  have "\<bar>9 * (1 - uH d) * 0.95\<bar> = 9 * (1 - uH d) * 0.95" using u by simp
  then show r: "radial (targetPos (mkElement d)) = coneRadius (py (targetPos (mkElement d))) * 0.95"
    using radial_polar[of "9 * (1 - uH d) * 0.95" "uTheta d * pi * 2"]
    by (simp add: mkElement_def Let_def radial_def coneRadius_def TREE_height_def TREE_radius_def)
  show "0 \<le> coneRadius (py (targetPos (mkElement d)))"
    using u by (simp add: mkElement_def Let_def coneRadius_def TREE_height_def TREE_radius_def)
  then show "radial (targetPos (mkElement d)) \<le> coneRadius (py (targetPos (mkElement d)))"
    unfolding r by simp
  show "- 11 \<le> py (targetPos (mkElement d))" "py (targetPos (mkElement d)) < 11"
    using u by (simp_all add: mkElement_def Let_def TREE_height_def)
qed

lemma getTreePosition_bounds:
  assumes "unitDraw a" "unitDraw b" "unitDraw c"
  shows "radial (getTreePosition a b c) \<le> coneRadius (py (getTreePosition a b c))"
    "- 11 \<le> py (getTreePosition a b c)" "py (getTreePosition a b c) < 11"
proof -
  from assms have u: "0 \<le> a" "a < 1" "0 \<le> c" "c < 1" by (simp_all add: unitDraw_def)
  have "\<bar>c * (9 * (1 - a))\<bar> = c * (9 * (1 - a))" using u by simp
  moreover have "c * (9 * (1 - a)) \<le> 1 * (9 * (1 - a))"
    using u by (intro mult_right_mono) simp_all
  ultimately show "radial (getTreePosition a b c) \<le> coneRadius (py (getTreePosition a b c))"
    using radial_polar[of "c * (9 * (1 - a))" "b * pi * 2"]
    by (simp add: getTreePosition_def Let_def radial_def coneRadius_def TREE_height_def
        TREE_radius_def)
  show "- 11 \<le> py (getTreePosition a b c)" "py (getTreePosition a b c) < 11"
    using u by (simp_all add: getTreePosition_def Let_def TREE_height_def)
qed

lemma inSphere_in_ball:
  assumes "inUnitBall b"
  shows "inBall 25 \<lparr>px = px b * 25, py = py b * 25, pz = pz b * 25\<rparr>"
proof -
  have "(px b * 25)\<^sup>2 + (py b * 25)\<^sup>2 + (pz b * 25)\<^sup>2
      = 625 * ((px b)\<^sup>2 + (py b)\<^sup>2 + (pz b)\<^sup>2)"
    by (simp add: power2_eq_square algebra_simps)
  also have "\<dots> \<le> 625 * 1"
    using assms unfolding inUnitBall_def by (intro mult_left_mono) simp_all
  finally have "(px b * 25)\<^sup>2 + (py b * 25)\<^sup>2 + (pz b * 25)\<^sup>2 \<le> 25\<^sup>2" by simp
  then have "sqrt ((px b * 25)\<^sup>2 + (py b * 25)\<^sup>2 + (pz b * 25)\<^sup>2) \<le> 25"
    by (intro real_le_lsqrt) simp_all
  then show ?thesis by (simp add: inBall_def getDistance_def origin_def)
qed

lemma demo_ball: "inUnitBall (pt (pi / 50) 0 (pi / 50))" "inUnitBall (pt 0.6 0 0.8)"
proof -
  have "0 \<le> pi / 50" "pi / 50 \<le> 4 / 50" using pi_less_4 by simp_all
  then have "(pi / 50)\<^sup>2 \<le> (4 / 50)\<^sup>2" by (intro power_mono)
  then show "inUnitBall (pt (pi / 50) 0 (pi / 50))"
    by (simp add: inUnitBall_def pt_def power2_eq_square)
  show "inUnitBall (pt 0.6 0 0.8)"
    by (simp add: inUnitBall_def pt_def power2_eq_square)
qed

lemma demo_unit: "unitDraws demoDraws" "unitSource demoRandom"
  using demo_ball
  by (simp_all add: unitSource_def demoRandom_def unitDraws_def unitDraw_def demoDraws_def
      draws.defs ornamentDraws.defs)

lemma demo_ornament:
  "ornaments (mkPools LOW demoRandom) ! 0 = mkOrnament (ornamentRandom demoRandom 0)"
  "targetPos (mkOrnament (ornamentRandom demoRandom 0)) = pt 5 0 0"
  by (simp_all add: mkPools_def demoRandom_def mkOrnament_def demoDraws_def draws.defs
      ornamentDraws.defs TREE_height_def TREE_radius_def pt_def Let_def)

text \<open>
  Claim C6, as the code has it. After population from draws in \<open>[0, 1)\<close>: the chaos position
  of every ornament lies in the cube of half-side 35 and that of every element and light
  in the cube of half-side 30, and the current position starts there. Every target height
  lies in \<open>[-11, 11)\<close>. The target of a foliage point and of an element lies within the cone
  (an element at 0.95 of the cone's radius); the target of an ornament lies 0.5 and that of
  a light 0.3 outside the cone's surface. The foliage has one rest position for each of its
  points, and every one of them lies within the distance 25 of the origin, the radius the
  sampler is called with, when the points the sampler scales lie in the unit ball.
\<close>

theorem populated_pool_bounds:
  assumes "unitSource rnd"
  shows "(\<forall>ob \<in> set (ornaments (mkPools quality rnd)).
            inCube 35 (chaosPos ob) \<and> currentPos ob = chaosPos ob
            \<and> radial (targetPos ob) = coneRadius (py (targetPos ob)) + 0.5
            \<and> - 11 \<le> py (targetPos ob) \<and> py (targetPos ob) < 11)
         \<and> (\<forall>ob \<in> set (lights (mkPools quality rnd)).
            inCube 30 (chaosPos ob) \<and> currentPos ob = chaosPos ob
            \<and> radial (targetPos ob) = coneRadius (py (targetPos ob)) + 0.3
            \<and> - 11 \<le> py (targetPos ob) \<and> py (targetPos ob) < 11)
         \<and> (\<forall>ob \<in> set (elements (mkPools quality rnd)).
            inCube 30 (chaosPos ob) \<and> currentPos ob = chaosPos ob
            \<and> radial (targetPos ob) = coneRadius (py (targetPos ob)) * 0.95
            \<and> radial (targetPos ob) \<le> coneRadius (py (targetPos ob))
            \<and> - 11 \<le> py (targetPos ob) \<and> py (targetPos ob) < 11)
         \<and> (\<forall>t \<in> set (targetPositions (foliagePool (mkPools quality rnd))).
            radial t \<le> coneRadius (py t) \<and> - 11 \<le> py t \<and> py t < 11)
         \<and> length (positions (foliagePool (mkPools quality rnd))) = fst (presetCounts quality)
         \<and> (\<forall>p \<in> set (positions (foliagePool (mkPools quality rnd))). inBall 25 p)"
proof -
  from assms have u: "unitDraws (ornamentRandom rnd i)" "unitDraws (elementRandom rnd i)"
    "unitDraws (lightRandom rnd i)"
    "case treeDraws rnd i of (a, b, c) \<Rightarrow> unitDraw a \<and> unitDraw b \<and> unitDraw c"
    "inUnitBall (ballPoints rnd i)" for i
    by (simp_all add: unitSource_def)
  obtain nf no ne nl where c: "presetCounts quality = (nf, no, ne, nl)"
    by (cases "presetCounts quality") auto
  have p: "ornaments (mkPools quality rnd) = map (\<lambda>i. mkOrnament (ornamentRandom rnd i)) [0..<no]"
    "elements (mkPools quality rnd) = map (\<lambda>i. mkElement (elementRandom rnd i)) [0..<ne]"
    "lights (mkPools quality rnd) = map (\<lambda>i. mkLight (lightRandom rnd i)) [0..<nl]"
    "targetPositions (foliagePool (mkPools quality rnd))
       = map (\<lambda>i. case treeDraws rnd i of (a, b, c) \<Rightarrow> getTreePosition a b c) [0..<nf]"
    by (simp_all add: mkPools_def c mkFoliage_def Let_def)
  have q: "positions (foliagePool (mkPools quality rnd)) = inSphere nf 25 (ballPoints rnd)"
    by (simp add: mkPools_def c mkFoliage_positions)
  have b: "length (inSphere nf 25 (ballPoints rnd)) = nf"
    "\<forall>p \<in> set (inSphere nf 25 (ballPoints rnd)). inBall 25 p"
    using inSphere_in_ball[OF u(5)] by (simp_all add: inSphere_def)
  have t: "radial (case treeDraws rnd i of (a, b, c) \<Rightarrow> getTreePosition a b c)
             \<le> coneRadius (py (case treeDraws rnd i of (a, b, c) \<Rightarrow> getTreePosition a b c))
           \<and> - 11 \<le> py (case treeDraws rnd i of (a, b, c) \<Rightarrow> getTreePosition a b c)
           \<and> py (case treeDraws rnd i of (a, b, c) \<Rightarrow> getTreePosition a b c) < 11" for i
    using u(4)[of i] getTreePosition_bounds by (cases "treeDraws rnd i") simp
  show ?thesis
    unfolding p q using t b
    by (simp add: mkOrnament_bounds[OF u(1)] mkLight_bounds[OF u(3)] mkElement_bounds[OF u(2)] c)
qed

text \<open>The first instances of the demonstration pool.\<close>

theorem populated_pool_bounds_example:
  "unitSource demoRandom
   \<and> inCube 30 (chaosPos (lights (mkPools LOW demoRandom) ! 0))
   \<and> radial (targetPos (lights (mkPools LOW demoRandom) ! 0))
     = coneRadius (py (targetPos (lights (mkPools LOW demoRandom) ! 0))) + 0.3
   \<and> inCube 35 (chaosPos (ornaments (mkPools LOW demoRandom) ! 0))
   \<and> radial (targetPos (ornaments (mkPools LOW demoRandom) ! 0))
     = coneRadius (py (targetPos (ornaments (mkPools LOW demoRandom) ! 0))) + 0.5
   \<and> radial (targetPos (elements (mkPools LOW demoRandom) ! 0))
     \<le> coneRadius (py (targetPos (elements (mkPools LOW demoRandom) ! 0)))
   \<and> radial (targetPositions (foliagePool (mkPools LOW demoRandom)) ! 0)
     \<le> coneRadius (py (targetPositions (foliagePool (mkPools LOW demoRandom)) ! 0))
   \<and> length (positions (foliagePool (mkPools LOW demoRandom))) = 6000
   \<and> inBall 25 (positions (foliagePool (mkPools LOW demoRandom)) ! 0)
   \<and> positions (foliagePool (mkPools LOW demoRandom)) ! 1 = pt 15 0 20
   \<and> inBall 25 (positions (foliagePool (mkPools LOW demoRandom)) ! 1)"
proof -
  note T = populated_pool_bounds[OF demo_unit(2), of LOW]
  have m: "lights (mkPools LOW demoRandom) ! 0 \<in> set (lights (mkPools LOW demoRandom))"
    "ornaments (mkPools LOW demoRandom) ! 0 \<in> set (ornaments (mkPools LOW demoRandom))"
    "elements (mkPools LOW demoRandom) ! 0 \<in> set (elements (mkPools LOW demoRandom))"
    "targetPositions (foliagePool (mkPools LOW demoRandom)) ! 0
       \<in> set (targetPositions (foliagePool (mkPools LOW demoRandom)))"
    by (simp_all add: mkPools_def mkFoliage_def Let_def)
  have n: "length (positions (foliagePool (mkPools LOW demoRandom))) = 6000"
    using T by simp
  then have "positions (foliagePool (mkPools LOW demoRandom)) ! 0
      \<in> set (positions (foliagePool (mkPools LOW demoRandom)))"
    "positions (foliagePool (mkPools LOW demoRandom)) ! 1
      \<in> set (positions (foliagePool (mkPools LOW demoRandom)))"
    by simp_all
  moreover have "positions (foliagePool (mkPools LOW demoRandom)) ! 1 = pt 15 0 20"
    by (simp add: mkPools_def mkFoliage_positions inSphere_def demoRandom_def pt_def)
  ultimately show ?thesis using T m n demo_unit(2) by blast
qed

text \<open>
  The first ornament of the demonstration pool has its target at \<open>(5, 0, 0)\<close>: 5 from the
  axis, where the cone of height 22 and base radius 9 has the radius 4.5.
\<close>

theorem ornament_target_outside_cone:
  "unitDraws (ornamentRandom demoRandom 0)
   \<and> targetPos (ornaments (mkPools LOW demoRandom) ! 0) = pt 5 0 0
   \<and> sqrt ((px (targetPos (ornaments (mkPools LOW demoRandom) ! 0)))\<^sup>2
           + (pz (targetPos (ornaments (mkPools LOW demoRandom) ! 0)))\<^sup>2) = 5
   \<and> 9 * (1 - (py (targetPos (ornaments (mkPools LOW demoRandom) ! 0)) + 22 / 2) / 22) = 4.5
   \<and> \<not> sqrt ((px (targetPos (ornaments (mkPools LOW demoRandom) ! 0)))\<^sup>2
             + (pz (targetPos (ornaments (mkPools LOW demoRandom) ! 0)))\<^sup>2)
         \<le> 9 * (1 - (py (targetPos (ornaments (mkPools LOW demoRandom) ! 0)) + 22 / 2) / 22)"
proof -
  have u: "unitDraws (ornamentRandom demoRandom 0)"
    using demo_unit(2) by (simp add: unitSource_def)
  have s: "sqrt ((5::real)\<^sup>2 + 0\<^sup>2) = 5" by simp
  show ?thesis
    unfolding demo_ornament using u s by (simp add: pt_def)
qed

end
